theory Spec2Isabelle
  imports Main "HOL-Library.Sublist" "HOL-Library.AList"
begin

section \<open>Python strings\<close>

text \<open>
  A Python \<open>str\<close> is a sequence of Unicode code points and \<open>len\<close> counts code points,
  so a string is a list of code points here (the arrow glyph U+2192 is one element).
  ASCII literals of the source are written with \<open>ascii\<close>.
\<close>

type_synonym codepoint = int
type_synonym ustr = "codepoint list"

definition ascii :: "string \<Rightarrow> ustr" where
  "ascii s = map of_char s"

definition ARROW :: codepoint where
  "ARROW = 0x2192"

definition startswith :: "ustr \<Rightarrow> ustr \<Rightarrow> bool" where
  "startswith s p = prefix p s"

text \<open>\<open>sep.join(xs)\<close>\<close>

fun join :: "ustr \<Rightarrow> ustr list \<Rightarrow> ustr" where
  "join sep [] = []"
| "join sep [x] = x"
| "join sep (x # y # ys) = x @ sep @ join sep (y # ys)"

text \<open>
  \<open>s.replace(old, new)\<close>: every non-overlapping occurrence of \<open>old\<close>, scanning from the
  left, is replaced. With an empty \<open>old\<close> Python inserts \<open>new\<close> before every character
  and at the end.
\<close>

function str_replace :: "ustr \<Rightarrow> ustr \<Rightarrow> ustr \<Rightarrow> ustr" where
  "str_replace old new s =
     (if old = [] then new @ concat (map (\<lambda>c. c # new) s)
      else if s = [] then []
      else if prefix old s then new @ str_replace old new (drop (length old) s)
      else hd s # str_replace old new (tl s))"
  by pat_completeness auto
termination
  by (relation "measure (\<lambda>(old, new, s). length s)") auto

declare str_replace.simps [simp del]

text \<open>\<open>str(n)\<close> for an integer: its decimal digits, with a minus sign when negative.\<close>

fun str_nat :: "nat \<Rightarrow> ustr" where
  "str_nat n = (if n < 10 then [48 + int n] else str_nat (n div 10) @ [48 + int (n mod 10)])"

declare str_nat.simps [simp del]

definition str_int :: "int \<Rightarrow> ustr" where
  "str_int i = (if i < 0 then ascii ''-'' @ str_nat (nat (- i)) else str_nat (nat i))"

subsection \<open>JSON values\<close>

text \<open>
  The Python values that travel through \<open>json\<close>: \<open>None\<close>, booleans, integers, strings,
  lists and dictionaries with string keys (in insertion order). Floating-point numbers are
  not modelled.
\<close>

datatype json =
    JNull
  | JBool bool
  | JInt int
  | JStr ustr
  | JArr "json list"
  | JObj "(ustr \<times> json) list"

subsection \<open>Unicode-dependent string methods\<close>

text \<open>
  \<open>str.lower\<close>, \<open>str.isalnum\<close>, whitespace stripping and \<open>int\<close> consult the Unicode
  character database. Their behaviour on ASCII and on the Latin-1 range U+0000..U+00FF is
  written out below; beyond that range it is a parameter of the model (a \<open>pylib\<close>), so
  that every theorem holds whatever the database says there. The \<open>repr\<close> of a list or
  dictionary, which \<open>str\<close> uses, is a parameter too.
\<close>

record pylib =
  uni_lower :: "ustr \<Rightarrow> ustr"
  uni_isalnum :: "codepoint \<Rightarrow> bool"
  uni_isspace :: "codepoint \<Rightarrow> bool"
  uni_to_ascii :: "ustr \<Rightarrow> ustr"
  container_repr :: "json \<Rightarrow> ustr"

definition is_latin1 :: "codepoint \<Rightarrow> bool" where
  "is_latin1 c = (0 \<le> c \<and> c < 256)"

definition is_ascii :: "codepoint \<Rightarrow> bool" where
  "is_ascii c = (0 \<le> c \<and> c < 128)"

text \<open>Lowercase mapping on U+0000..U+00FF: A-Z, and U+00C0..U+00DE except the multiplication sign.\<close>

definition latin1_lower :: "codepoint \<Rightarrow> codepoint" where
  "latin1_lower c =
     (if 65 \<le> c \<and> c \<le> 90 then c + 32
      else if 192 \<le> c \<and> c \<le> 222 \<and> c \<noteq> 215 then c + 32
      else c)"

definition lower :: "pylib \<Rightarrow> ustr \<Rightarrow> ustr" where
  "lower L s = (if list_all is_latin1 s then map latin1_lower s else uni_lower L s)"

text \<open>
  Alphanumeric code points of U+0000..U+00FF (letters, decimal digits, and the characters
  with a digit or numeric value: superscripts and vulgar fractions).
\<close>

definition latin1_isalnum :: "codepoint \<Rightarrow> bool" where
  "latin1_isalnum c =
     ((48 \<le> c \<and> c \<le> 57) \<or> (65 \<le> c \<and> c \<le> 90) \<or> (97 \<le> c \<and> c \<le> 122)
      \<or> c = 170 \<or> c = 178 \<or> c = 179 \<or> c = 181 \<or> c = 185 \<or> c = 186
      \<or> (188 \<le> c \<and> c \<le> 190)
      \<or> (192 \<le> c \<and> c \<le> 214) \<or> (216 \<le> c \<and> c \<le> 246) \<or> (248 \<le> c \<and> c \<le> 255))"

definition isalnum_cp :: "pylib \<Rightarrow> codepoint \<Rightarrow> bool" where
  "isalnum_cp L c = (if is_latin1 c then latin1_isalnum c else uni_isalnum L c)"

text \<open>\<open>s.isalnum()\<close>: at least one character, and every character alphanumeric.\<close>

definition isalnum :: "pylib \<Rightarrow> ustr \<Rightarrow> bool" where
  "isalnum L s = (s \<noteq> [] \<and> list_all (isalnum_cp L) s)"

text \<open>
  Whitespace as stripped from string fields by the validation layer
  (\<open>str_strip_whitespace\<close>): tab, line feed, vertical tab, form feed, carriage return and
  space are whitespace, printable ASCII is not, the rest is the library's.
\<close>

definition is_whitespace :: "pylib \<Rightarrow> codepoint \<Rightarrow> bool" where
  "is_whitespace L c =
     ((9 \<le> c \<and> c \<le> 13) \<or> c = 32 \<or> (\<not> (33 \<le> c \<and> c \<le> 126) \<and> uni_isspace L c))"

definition strip_whitespace :: "pylib \<Rightarrow> ustr \<Rightarrow> ustr" where
  "strip_whitespace L s =
     rev (dropWhile (is_whitespace L) (rev (dropWhile (is_whitespace L) s)))"

text \<open>\<open>s.lstrip(chars)\<close>\<close>

definition lstrip :: "ustr \<Rightarrow> ustr \<Rightarrow> ustr" where
  "lstrip s chars = dropWhile (\<lambda>c. c \<in> set chars) s"

subsection \<open>\<open>int(s, 16)\<close>\<close>

text \<open>
  \<open>int(s, 16)\<close> on an ASCII string: optional surrounding whitespace, an optional
  sign, an optional \<open>0x\<close>/\<open>0X\<close> prefix (which may be followed by one underscore), then hex
  digits, where single underscores may separate digits. \<open>None\<close> is \<open>ValueError\<close>.
  A string with non-ASCII characters is first transliterated (Unicode spaces and decimal
  digits to ASCII) by the library.
\<close>

definition is_py_space :: "codepoint \<Rightarrow> bool" where
  "is_py_space c = ((9 \<le> c \<and> c \<le> 13) \<or> c = 32)"

definition hex_digit_value :: "codepoint \<Rightarrow> int option" where
  "hex_digit_value c =
     (if 48 \<le> c \<and> c \<le> 57 then Some (c - 48)
      else if 97 \<le> c \<and> c \<le> 102 then Some (c - 87)
      else if 65 \<le> c \<and> c \<le> 70 then Some (c - 55)
      else None)"

definition is_hex_digit :: "codepoint \<Rightarrow> bool" where
  "is_hex_digit c = (hex_digit_value c \<noteq> None)"

fun adjacent_underscores :: "ustr \<Rightarrow> bool" where
  "adjacent_underscores (a # b # cs) = ((a = 95 \<and> b = 95) \<or> adjacent_underscores (b # cs))"
| "adjacent_underscores _ = False"

definition hex_value :: "ustr \<Rightarrow> int" where
  "hex_value ds =
     foldl (\<lambda>acc c. case hex_digit_value c of Some d \<Rightarrow> 16 * acc + d | None \<Rightarrow> acc) 0 ds"

definition parse_int16 :: "ustr \<Rightarrow> int option" where
  "parse_int16 s =
     (let t1 = dropWhile is_py_space s;
          sign = (if startswith t1 (ascii ''-'') then - 1 else 1);
          t2 = (if startswith t1 (ascii ''+'') \<or> startswith t1 (ascii ''-'') then tl t1 else t1);
          t3 = (if startswith t2 (ascii ''0x'') \<or> startswith t2 (ascii ''0X'')
                then (let r = drop 2 t2 in if startswith r (ascii ''_'') then tl r else r)
                else t2);
          run = takeWhile (\<lambda>c. is_hex_digit c \<or> c = 95) t3;
          rest = dropWhile (\<lambda>c. is_hex_digit c \<or> c = 95) t3
      in if startswith t3 (ascii ''_'') then None
         else if adjacent_underscores run then None
         else if run \<noteq> [] \<and> last run = 95 then None
         else if run = [] then None
         else if dropWhile is_py_space rest \<noteq> [] then None
         else Some (sign * hex_value run))"

definition int16 :: "pylib \<Rightarrow> ustr \<Rightarrow> int option" where
  "int16 L s = parse_int16 (if list_all is_ascii s then s else uni_to_ascii L s)"


section \<open>\<open>json.dumps\<close>\<close>

definition hex_char :: "int \<Rightarrow> codepoint" where
  "hex_char d = (if d < 10 then 48 + d else 87 + d)"

definition hex4 :: "int \<Rightarrow> ustr" where
  "hex4 n = [hex_char (n div 4096 mod 16), hex_char (n div 256 mod 16),
             hex_char (n div 16 mod 16), hex_char (n mod 16)]"

text \<open>
  String encoding with \<open>ensure_ascii\<close> (the default): quote, backslash and the short
  control escapes, printable ASCII as it is, everything else as \<open>\uXXXX\<close> (a surrogate
  pair above U+FFFF).
\<close>

definition escape_cp :: "codepoint \<Rightarrow> ustr" where
  "escape_cp c =
     (if c = 34 then ascii [CHR 0x5C, CHR 0x22]
      else if c = 92 then ascii [CHR 0x5C, CHR 0x5C]
      else if c = 10 then ascii [CHR 0x5C, CHR ''n'']
      else if c = 13 then ascii [CHR 0x5C, CHR ''r'']
      else if c = 9 then ascii [CHR 0x5C, CHR ''t'']
      else if c = 8 then ascii [CHR 0x5C, CHR ''b'']
      else if c = 12 then ascii [CHR 0x5C, CHR ''f'']
      else if 32 \<le> c \<and> c \<le> 126 then [c]
      else if c < 65536 then ascii [CHR 0x5C, CHR ''u''] @ hex4 c
      else (let n = c - 65536
            in ascii [CHR 0x5C, CHR ''u''] @ hex4 (55296 + n div 1024 mod 1024)
               @ ascii [CHR 0x5C, CHR ''u''] @ hex4 (56320 + n mod 1024)))"

definition encode_string :: "ustr \<Rightarrow> ustr" where
  "encode_string s = ascii [CHR 0x22] @ concat (map escape_cp s) @ ascii [CHR 0x22]"

definition newline_indent :: "nat \<Rightarrow> ustr" where
  "newline_indent level = ascii [CHR 0x0A] @ replicate (2 * level) 32"

text \<open>\<open>json.dumps(v, indent=2)\<close>, at nesting depth \<open>level\<close>.\<close>

fun dumps_at :: "nat \<Rightarrow> json \<Rightarrow> ustr" where
  "dumps_at level JNull = ascii ''null''"
| "dumps_at level (JBool b) = (if b then ascii ''true'' else ascii ''false'')"
| "dumps_at level (JInt i) = str_int i"
| "dumps_at level (JStr s) = encode_string s"
| "dumps_at level (JArr xs) =
     (if xs = [] then ascii ''[]''
      else ascii ''['' @ newline_indent (Suc level)
           @ join (ascii '','' @ newline_indent (Suc level)) (map (dumps_at (Suc level)) xs)
           @ newline_indent level @ ascii '']'')"
| "dumps_at level (JObj kvs) =
     (if kvs = [] then ascii ''{}''
      else ascii ''{'' @ newline_indent (Suc level)
           @ join (ascii '','' @ newline_indent (Suc level))
               (map (\<lambda>kv. encode_string (fst kv) @ ascii '': '' @ dumps_at (Suc level) (snd kv)) kvs)
           @ newline_indent level @ ascii ''}'')"

definition dumps :: "json \<Rightarrow> ustr" where
  "dumps v = dumps_at 0 v"

text \<open>\<open>d.get(k)\<close> and \<open>d.get(k, default)\<close> on a dictionary.\<close>

definition dict_get :: "(ustr \<times> 'v) list \<Rightarrow> ustr \<Rightarrow> 'v option" where
  "dict_get d k = map_of d k"

definition dict_get_default :: "(ustr \<times> 'v) list \<Rightarrow> ustr \<Rightarrow> 'v \<Rightarrow> 'v" where
  "dict_get_default d k dflt = (case map_of d k of None \<Rightarrow> dflt | Some v \<Rightarrow> v)"

text \<open>The name of a value's type, as it appears in Python's error messages.\<close>

fun py_type_name :: "json \<Rightarrow> ustr" where
  "py_type_name JNull = ascii ''NoneType''"
| "py_type_name (JBool b) = ascii ''bool''"
| "py_type_name (JInt i) = ascii ''int''"
| "py_type_name (JStr s) = ascii ''str''"
| "py_type_name (JArr xs) = ascii ''list''"
| "py_type_name (JObj kvs) = ascii ''dict''"

text \<open>\<open>str(v)\<close>, as an f-string formats a value.\<close>

fun py_str :: "pylib \<Rightarrow> json \<Rightarrow> ustr" where
  "py_str L JNull = ascii ''None''"
| "py_str L (JBool b) = (if b then ascii ''True'' else ascii ''False'')"
| "py_str L (JInt i) = str_int i"
| "py_str L (JStr s) = s"
| "py_str L v = container_repr L v"

text \<open>\<open>str(v)\<close> for an \<open>Optional[str]\<close>.\<close>

fun str_opt :: "ustr option \<Rightarrow> ustr" where
  "str_opt None = ascii ''None''"
| "str_opt (Some s) = s"

section \<open>Exceptions\<close>

datatype exn =
    HTTPStatusError int
  | TimeoutException ustr
  | ConnectError ustr
  | JSONDecodeError ustr
  | OSError ustr ustr
  | UnicodeDecodeError ustr
  | AttributeError ustr
  | TypeError ustr
  | OtherException ustr ustr

text \<open>
  \<open>type(e).__name__\<close> and \<open>str(e)\<close>. \<open>IOError\<close> is \<open>OSError\<close>; an \<open>OSError\<close> carries the
  name of its concrete class (\<open>PermissionError\<close>, \<open>IsADirectoryError\<close>, ...).
\<close>

fun exn_name :: "exn \<Rightarrow> ustr" where
  "exn_name (HTTPStatusError status) = ascii ''HTTPStatusError''"
| "exn_name (TimeoutException m) = ascii ''TimeoutException''"
| "exn_name (ConnectError m) = ascii ''ConnectError''"
| "exn_name (JSONDecodeError m) = ascii ''JSONDecodeError''"
| "exn_name (OSError cls m) = cls"
| "exn_name (UnicodeDecodeError m) = ascii ''UnicodeDecodeError''"
| "exn_name (AttributeError m) = ascii ''AttributeError''"
| "exn_name (TypeError m) = ascii ''TypeError''"
| "exn_name (OtherException cls m) = cls"

fun exn_str :: "exn \<Rightarrow> ustr" where
  "exn_str (HTTPStatusError status) = []"
| "exn_str (TimeoutException m) = m"
| "exn_str (ConnectError m) = m"
| "exn_str (JSONDecodeError m) = m"
| "exn_str (OSError cls m) = m"
| "exn_str (UnicodeDecodeError m) = m"
| "exn_str (AttributeError m) = m"
| "exn_str (TypeError m) = m"
| "exn_str (OtherException cls m) = m"

section \<open>Enums\<close>

datatype ResponseFormat = MARKDOWN | JSON

datatype AnnouncementStyle = RELEASE | HOTFIX | BETA | CUSTOM


section \<open>Constants\<close>

definition DISCORD_MESSAGE_LIMIT :: nat where
  "DISCORD_MESSAGE_LIMIT = 2000"

definition LIVING_LANDS_LOGO_URL :: ustr where
  "LIVING_LANDS_LOGO_URL = ascii ''https://raw.githubusercontent.com/MoshPitCodes/hytale-livinglands/main/.github/assets/logo/hytale-livinglands-logo.png''"

definition APOS :: ustr where
  "APOS = ascii [CHR 0x27]"

definition NL :: ustr where
  "NL = ascii [CHR 0x0A]"

text \<open>Truth value of an \<open>Optional[str]\<close>: \<open>None\<close> and the empty string are false.\<close>

fun truthy :: "ustr option \<Rightarrow> bool" where
  "truthy None = False"
| "truthy (Some s) = (s \<noteq> [])"

section \<open>Input models\<close>

text \<open>
  The tools receive validated models; the records below hold the values after validation.
  Field names carry the model's initials.
\<close>

record SendMessageInput =
  sm_webhook_name :: ustr
  sm_content :: ustr
  sm_username :: "ustr option"
  sm_avatar_url :: "ustr option"
  sm_response_format :: ResponseFormat

record SendAnnouncementInput =
  sa_webhook_name :: ustr
  sa_version :: ustr
  sa_headline :: ustr
  sa_changes :: "ustr list"
  sa_download_url :: "ustr option"
  sa_style :: AnnouncementStyle
  sa_beta_warning :: bool
  sa_use_embed :: bool
  sa_embed_color :: "ustr option"
  sa_thumbnail_url :: "ustr option"
  sa_footer_text :: "ustr option"
  sa_username :: "ustr option"
  sa_response_format :: ResponseFormat

record AddWebhookInput =
  aw_name :: ustr
  aw_url :: ustr
  aw_description :: "ustr option"

subsection \<open>Validation of \<open>AddWebhookInput\<close>\<close>

text \<open>
  A string field is first stripped of surrounding whitespace (\<open>str_strip_whitespace\<close>),
  then checked against \<open>min_length\<close> and \<open>max_length\<close> (in characters), and the result
  is handed to the field's validator function.
\<close>

datatype validation_error =
    string_too_short ustr
  | string_too_long ustr
  | value_error ustr ustr

definition str_field :: "pylib \<Rightarrow> ustr \<Rightarrow> nat \<Rightarrow> nat \<Rightarrow> ustr \<Rightarrow> validation_error + ustr" where
  "str_field L field min_length max_length raw =
     (let v = strip_whitespace L raw
      in if length v < min_length then Inl (string_too_short field)
         else if max_length < length v then Inl (string_too_long field)
         else Inr v)"

definition WEBHOOK_PREFIX_1 :: ustr where
  "WEBHOOK_PREFIX_1 = ascii ''https://discord.com/api/webhooks/''"

definition WEBHOOK_PREFIX_2 :: ustr where
  "WEBHOOK_PREFIX_2 = ascii ''https://discordapp.com/api/webhooks/''"

definition validate_webhook_url :: "ustr \<Rightarrow> validation_error + ustr" where
  "validate_webhook_url v =
     (if \<not> startswith v WEBHOOK_PREFIX_1 \<and> \<not> startswith v WEBHOOK_PREFIX_2
      then Inl (value_error (ascii ''url'')
                 (ascii ''Invalid Discord webhook URL. Must start with '' @ APOS
                  @ ascii ''https://discord.com/api/webhooks/'' @ APOS @ ascii '' or '' @ APOS
                  @ ascii ''https://discordapp.com/api/webhooks/'' @ APOS))
      else Inr v)"

definition validate_name :: "pylib \<Rightarrow> ustr \<Rightarrow> validation_error + ustr" where
  "validate_name L v =
     (let sanitized = str_replace (ascii '' '') (ascii ''_'') (lower L v)
      in if \<not> isalnum L (str_replace (ascii ''_'') [] sanitized)
         then Inl (value_error (ascii ''name'')
                    (ascii ''Webhook name must contain only alphanumeric characters and spaces/underscores''))
         else Inr sanitized)"

definition name_field :: "pylib \<Rightarrow> ustr \<Rightarrow> validation_error + ustr" where
  "name_field L raw =
     (case str_field L (ascii ''name'') 1 50 raw of
        Inl e \<Rightarrow> Inl e
      | Inr v \<Rightarrow> validate_name L v)"

definition url_field :: "pylib \<Rightarrow> ustr \<Rightarrow> validation_error + ustr" where
  "url_field L raw =
     (case str_field L (ascii ''url'') 50 300 raw of
        Inl e \<Rightarrow> Inl e
      | Inr v \<Rightarrow> validate_webhook_url v)"

definition description_field :: "pylib \<Rightarrow> ustr option \<Rightarrow> validation_error + ustr option" where
  "description_field L raw =
     (case raw of
        None \<Rightarrow> Inr None
      | Some d \<Rightarrow>
          (case str_field L (ascii ''description'') 0 200 d of
             Inl e \<Rightarrow> Inl e
           | Inr v \<Rightarrow> Inr (Some v)))"

fun errors_of :: "validation_error + 'a \<Rightarrow> validation_error list" where
  "errors_of (Inl e) = [e]"
| "errors_of (Inr v) = []"

text \<open>All fields are validated; the model is built only when none of them failed.\<close>

definition AddWebhookInput_validate ::
  "pylib \<Rightarrow> ustr \<Rightarrow> ustr \<Rightarrow> ustr option \<Rightarrow> validation_error list + AddWebhookInput" where
  "AddWebhookInput_validate L raw_name raw_url raw_description =
     (case (name_field L raw_name, url_field L raw_url, description_field L raw_description) of
        (Inr n, Inr u, Inr d) \<Rightarrow> Inr \<lparr>aw_name = n, aw_url = u, aw_description = d\<rparr>
      | (rn, ru, rd) \<Rightarrow> Inl (errors_of rn @ errors_of ru @ errors_of rd))"

section \<open>Webhook configuration management\<close>

text \<open>
  The registry is a dictionary from names to entries, an entry a dictionary from field
  names to strings or \<open>None\<close> (what \<open>discord_add_webhook\<close> writes). Both keep insertion
  order.
\<close>

type_synonym entry = "(ustr \<times> ustr option) list"
type_synonym registry = "(ustr \<times> entry) list"

text \<open>
  What is on disk at \<open>WEBHOOKS_FILE\<close>: nothing; a file that cannot be opened or read
  (\<open>OSError\<close>, with its class name and message); a file whose bytes do not decode as text
  (\<open>f.read()\<close> inside \<open>json.load\<close> raises \<open>UnicodeDecodeError\<close>); text that is not JSON
  (\<open>JSONDecodeError\<close>); or a registry document.
\<close>

datatype file_state =
    Missing
  | Unreadable ustr ustr
  | Undecodable ustr
  | Malformed ustr
  | Document registry

record request =
  req_url :: ustr
  req_json :: json

record response =
  status_code :: int
  resp_text :: ustr
  resp_json :: "ustr + json"

text \<open>
  The state outside the program: the registry file, whether opening it for writing fails
  (and with which \<open>OSError\<close>), and the POST requests issued so far.
\<close>

record world =
  webhooks_file :: file_state
  write_error :: "(ustr \<times> ustr) option"
  posts :: "request list"

text \<open>\<open>open(WEBHOOKS_FILE, 'r')\<close> followed by \<open>json.load(f)\<close>, for a file that exists.\<close>

fun read_json :: "file_state \<Rightarrow> exn + registry" where
  "read_json Missing = Inl (OSError (ascii ''FileNotFoundError'') [])"
| "read_json (Unreadable cls m) = Inl (OSError cls m)"
| "read_json (Undecodable m) = Inl (UnicodeDecodeError m)"
| "read_json (Malformed m) = Inl (JSONDecodeError m)"
| "read_json (Document d) = Inr d"

text \<open>The handler \<open>except (json.JSONDecodeError, IOError)\<close>.\<close>

fun is_JSONDecodeError_or_IOError :: "exn \<Rightarrow> bool" where
  "is_JSONDecodeError_or_IOError (JSONDecodeError m) = True"
| "is_JSONDecodeError_or_IOError (OSError cls m) = True"
| "is_JSONDecodeError_or_IOError _ = False"

definition load_webhooks :: "world \<Rightarrow> exn + registry" where
  "load_webhooks w =
     (if webhooks_file w = Missing then Inr []
      else (case read_json (webhooks_file w) of
              Inr d \<Rightarrow> Inr d
            | Inl e \<Rightarrow> if is_JSONDecodeError_or_IOError e then Inr [] else Inl e))"

definition save_webhooks :: "registry \<Rightarrow> world \<Rightarrow> exn + world" where
  "save_webhooks webhooks w =
     (case write_error w of
        Some (cls, m) \<Rightarrow> Inl (OSError cls m)
      | None \<Rightarrow> Inr (w\<lparr>webhooks_file := Document webhooks\<rparr>))"

definition get_webhook_url :: "pylib \<Rightarrow> world \<Rightarrow> ustr \<Rightarrow> exn + ustr option" where
  "get_webhook_url L w nm =
     (case load_webhooks w of
        Inl e \<Rightarrow> Inl e
      | Inr webhooks \<Rightarrow>
          (case dict_get webhooks (lower L nm) of
             None \<Rightarrow> Inr None
           | Some webhook \<Rightarrow>
               if webhook \<noteq> [] then Inr (dict_get_default webhook (ascii ''url'') None)
               else Inr None))"


section \<open>Shared utilities\<close>

text \<open>
  The remote service is a function from the request to what \<open>client.post\<close> does: it
  raises, or returns a response. \<open>resp_json\<close> is what \<open>response.json()\<close> does on the body:
  \<open>Inl\<close> is a decoding error (with its message), \<open>Inr\<close> the parsed value. Every request is
  recorded in \<open>posts\<close>. The header and the 30 second timeout are the same for all requests.
\<close>

type_synonym http = "request \<Rightarrow> exn + response"

definition payload_item :: "ustr \<Rightarrow> ustr option \<Rightarrow> (ustr \<times> json) list" where
  "payload_item key v =
     (case v of None \<Rightarrow> [] | Some x \<Rightarrow> if x \<noteq> [] then [(key, JStr x)] else [])"

text \<open>The JSON body: only the arguments that are present (and not empty).\<close>

definition payload_of ::
  "ustr option \<Rightarrow> ustr option \<Rightarrow> ustr option \<Rightarrow> json list option \<Rightarrow> json" where
  "payload_of content username avatar_url embeds =
     JObj (payload_item (ascii ''content'') content
           @ payload_item (ascii ''username'') username
           @ payload_item (ascii ''avatar_url'') avatar_url
           @ (case embeds of
                None \<Rightarrow> []
              | Some es \<Rightarrow> if es \<noteq> [] then [(ascii ''embeds'', JArr es)] else []))"

text \<open>
  What \<open>_send_webhook_message\<close> makes of the response it received: the branches on
  \<open>response.status_code\<close>. In the last branch a body that is not JSON leaves \<open>error_text\<close>
  as the raw text; \<open>error_json.get\<close> on a JSON value that is not an object raises
  \<open>AttributeError\<close>, which the handler \<open>except (json.JSONDecodeError, ValueError)\<close> does
  not catch.
\<close>

definition dispatch_result :: "response \<Rightarrow> exn + json" where
  "dispatch_result response =
     (if status_code response = 204 then
        Inr (JObj [(ascii ''success'', JBool True),
                   (ascii ''status_code'', JInt 204),
                   (ascii ''message'', JStr (ascii ''Message sent successfully''))])
      else if status_code response = 200 then
        (if resp_text response \<noteq> [] then
           (case resp_json response of
              Inl m \<Rightarrow> Inl (JSONDecodeError m)
            | Inr body \<Rightarrow>
                Inr (JObj [(ascii ''success'', JBool True),
                           (ascii ''status_code'', JInt 200),
                           (ascii ''message'', JStr (ascii ''Message sent successfully'')),
                           (ascii ''response'', body)]))
         else
           Inr (JObj [(ascii ''success'', JBool True),
                      (ascii ''status_code'', JInt 200),
                      (ascii ''message'', JStr (ascii ''Message sent successfully'')),
                      (ascii ''response'', JNull)]))
      else
        (let error_text = JStr (resp_text response)
         in case resp_json response of
              Inl m \<Rightarrow>
                Inr (JObj [(ascii ''success'', JBool False),
                           (ascii ''status_code'', JInt (status_code response)),
                           (ascii ''error'', error_text)])
            | Inr (JObj kvs) \<Rightarrow>
                Inr (JObj [(ascii ''success'', JBool False),
                           (ascii ''status_code'', JInt (status_code response)),
                           (ascii ''error'', dict_get_default kvs (ascii ''message'') error_text)])
            | Inr other \<Rightarrow>
                Inl (AttributeError (APOS @ py_type_name other @ APOS
                       @ ascii '' object has no attribute '' @ APOS @ ascii ''get'' @ APOS))))"

definition send_webhook_message ::
  "http \<Rightarrow> ustr \<Rightarrow> ustr option \<Rightarrow> ustr option \<Rightarrow> ustr option \<Rightarrow> json list option
   \<Rightarrow> world \<Rightarrow> (exn + json) \<times> world" where
  "send_webhook_message post webhook_url content username avatar_url embeds w =
     (let req = \<lparr>req_url = webhook_url, req_json = payload_of content username avatar_url embeds\<rparr>;
          w' = w\<lparr>posts := posts w @ [req]\<rparr>
      in case post req of
           Inl e \<Rightarrow> (Inl e, w')
         | Inr response \<Rightarrow> (dispatch_result response, w'))"

fun handle_error :: "exn \<Rightarrow> ustr" where
  "handle_error (HTTPStatusError status) =
     (if status = 400 then
        ascii ''Error: Bad request. Check that the message content is valid and within Discord's limits.''
      else if status = 401 then
        ascii ''Error: Unauthorized. The webhook URL may be invalid or expired.''
      else if status = 403 then
        ascii ''Error: Forbidden. The webhook may have been deleted or you don't have permission.''
      else if status = 404 then
        ascii ''Error: Webhook not found. The webhook URL may be invalid or deleted.''
      else if status = 429 then
        ascii ''Error: Rate limited. Too many requests. Please wait before sending more messages.''
      else ascii ''Error: Discord API returned status '' @ str_int status)"
| "handle_error (TimeoutException m) =
     ascii ''Error: Request timed out. Discord may be experiencing issues. Please try again.''"
| "handle_error (ConnectError m) =
     ascii ''Error: Could not connect to Discord. Check your internet connection.''"
| "handle_error e = ascii ''Error: '' @ exn_name e @ ascii '': '' @ exn_str e"

section \<open>Plain-text announcement builder\<close>

fun emoji_map :: "AnnouncementStyle \<Rightarrow> codepoint" where
  "emoji_map RELEASE = 0x1F4E6"
| "emoji_map HOTFIX = 0x1F6A8"
| "emoji_map BETA = 0x1F9EA"
| "emoji_map CUSTOM = 0x1F4E2"

text \<open>The body of the loop over \<open>changes\<close>: the line appended for one change.\<close>

definition change_line :: "ustr \<Rightarrow> ustr" where
  "change_line change =
     (if \<not> startswith change [ARROW] \<and> \<not> startswith change (ascii ''->'')
      then [ARROW] @ ascii '' '' @ change
      else str_replace (ascii ''->'') [ARROW] change)"

definition BETA_WARNING_LINE :: ustr where
  "BETA_WARNING_LINE =
     [0x26A0, 0xFE0F] @ ascii '' Beta '' @ [0x2014] @ ascii '' back up your world before updating.''"

definition announcement_lines ::
  "ustr \<Rightarrow> ustr \<Rightarrow> ustr list \<Rightarrow> ustr option \<Rightarrow> AnnouncementStyle \<Rightarrow> bool \<Rightarrow> ustr list" where
  "announcement_lines version headline changes download_url style beta_warning =
     [[emoji_map style] @ ascii '' **'' @ version @ ascii ''** is live!'', [], headline, []]
     @ map change_line changes
     @ (if beta_warning then [[], BETA_WARNING_LINE] else [])
     @ (case download_url of
          None \<Rightarrow> []
        | Some u \<Rightarrow> if u \<noteq> [] then [[0x1F517] @ ascii '' '' @ u] else [])"

definition format_announcement ::
  "ustr \<Rightarrow> ustr \<Rightarrow> ustr list \<Rightarrow> ustr option \<Rightarrow> AnnouncementStyle \<Rightarrow> bool \<Rightarrow> ustr" where
  "format_announcement version headline changes download_url style beta_warning =
     join NL
       (announcement_lines version headline changes download_url style beta_warning)"

section \<open>Rich-card builder\<close>

fun color_map :: "AnnouncementStyle \<Rightarrow> int" where
  "color_map RELEASE = 0x57F287"
| "color_map HOTFIX = 0xED4245"
| "color_map BETA = 0xFEE75C"
| "color_map CUSTOM = 0x5865F2"

text \<open>The colour: \<open>if embed_color: try: int(embed_color.lstrip('#'), 16) except ValueError: ...\<close>\<close>

definition embed_color_of :: "pylib \<Rightarrow> ustr option \<Rightarrow> AnnouncementStyle \<Rightarrow> int" where
  "embed_color_of L embed_color style =
     (if truthy embed_color then
        (case int16 L (lstrip (the embed_color) (ascii ''#'')) of
           Some color \<Rightarrow> color
         | None \<Rightarrow> color_map style)
      else color_map style)"

definition embed_field :: "ustr \<Rightarrow> ustr \<Rightarrow> json" where
  "embed_field nm val =
     JObj [(ascii ''name'', JStr nm), (ascii ''value'', JStr val), (ascii ''inline'', JBool False)]"

text \<open>
  \<open>if "fields" in embed: embed["fields"].append(f) else: embed["fields"] = [f]\<close>.
  Assigning to a new key appends it to the dictionary, assigning to an old one keeps its
  place (\<open>AList.update\<close>).
\<close>

definition append_field :: "(ustr \<times> json) list \<Rightarrow> json \<Rightarrow> (ustr \<times> json) list" where
  "append_field embd f =
     (case map_of embd (ascii ''fields'') of
        Some (JArr fs) \<Rightarrow> AList.update (ascii ''fields'') (JArr (fs @ [f])) embd
      | _ \<Rightarrow> AList.update (ascii ''fields'') (JArr [f]) embd)"

definition build_announcement_embed ::
  "pylib \<Rightarrow> ustr \<Rightarrow> ustr \<Rightarrow> ustr \<Rightarrow> ustr list \<Rightarrow> ustr option \<Rightarrow> AnnouncementStyle \<Rightarrow> bool
   \<Rightarrow> ustr option \<Rightarrow> ustr option \<Rightarrow> ustr option \<Rightarrow> (ustr \<times> json) list" where
  "build_announcement_embed L utcnow version headline changes download_url style beta_warning
       embed_color thumbnail_url footer_text =
     (let color = embed_color_of L embed_color style;
          emoji = emoji_map style;
          e0 = [(ascii ''title'', JStr ([emoji] @ ascii '' '' @ version @ ascii '' is live!'')),
                (ascii ''description'', JStr headline),
                (ascii ''color'', JInt color),
                (ascii ''timestamp'', JStr (utcnow @ ascii ''Z''))];
          e1 = (if changes \<noteq> [] then
                  AList.update (ascii ''fields'')
                    (JArr [embed_field (ascii ''What's New'')
                             (join NL (map (\<lambda>change. [ARROW] @ ascii '' '' @ change) changes))]) e0
                else e0);
          e2 = (if beta_warning then
                  append_field e1
                    (embed_field ([0x26A0, 0xFE0F] @ ascii '' Warning'')
                       (ascii ''This is a **beta release**. Back up your world before updating!''))
                else e1);
          e3 = (if truthy download_url then
                  append_field (AList.update (ascii ''url'') (JStr (the download_url)) e2)
                    (embed_field ([0x1F517] @ ascii '' Download'')
                       (ascii ''[Get it here]('' @ the download_url @ ascii '')''))
                else e2);
          e4 = (if truthy thumbnail_url then
                  AList.update (ascii ''thumbnail'') (JObj [(ascii ''url'', JStr (the thumbnail_url))]) e3
                else e3);
          footer_content = (if truthy footer_text then the footer_text else ascii ''Release Announcement'')
      in AList.update (ascii ''footer'') (JObj [(ascii ''text'', JStr footer_content)]) e4)"

section \<open>Tool implementations\<close>

text \<open>
  A tool takes the state of the outside world and returns its answer together with the new
  state. \<open>except Exception\<close> around a tool's body catches whatever was raised inside.
\<close>

text \<open>\<open>list(webhooks.keys()) if webhooks else []\<close>\<close>

definition available_webhooks :: "registry \<Rightarrow> ustr list" where
  "available_webhooks webhooks = (if webhooks \<noteq> [] then map fst webhooks else [])"

text \<open>\<open>result["success"]\<close> and \<open>result.get('error', 'Unknown error')\<close> on a dispatch result.\<close>

definition result_success :: "json \<Rightarrow> bool" where
  "result_success result =
     (case result of JObj kvs \<Rightarrow> map_of kvs (ascii ''success'') = Some (JBool True) | _ \<Rightarrow> False)"

definition result_error :: "json \<Rightarrow> json" where
  "result_error result =
     (case result of
        JObj kvs \<Rightarrow> dict_get_default kvs (ascii ''error'') (JStr (ascii ''Unknown error''))
      | _ \<Rightarrow> JStr (ascii ''Unknown error''))"

definition discord_send_message ::
  "pylib \<Rightarrow> http \<Rightarrow> SendMessageInput \<Rightarrow> world \<Rightarrow> ustr \<times> world" where
  "discord_send_message L post params w =
     (case get_webhook_url L w (sm_webhook_name params) of
        Inl e \<Rightarrow> (handle_error e, w)
      | Inr webhook_url \<Rightarrow>
          if \<not> truthy webhook_url then
            (case load_webhooks w of
               Inl e \<Rightarrow> (handle_error e, w)
             | Inr webhooks \<Rightarrow>
                 if available_webhooks webhooks \<noteq> [] then
                   (ascii ''Error: Webhook '' @ APOS @ sm_webhook_name params @ APOS
                    @ ascii '' not found. Available webhooks: ''
                    @ join (ascii '', '') (available_webhooks webhooks)
                    @ ascii ''. Use discord_add_webhook to add a new one.'', w)
                 else
                   (ascii ''Error: Webhook '' @ APOS @ sm_webhook_name params @ APOS
                    @ ascii '' not found. No webhooks configured. Use discord_add_webhook to add one first.'', w))
          else
            (case send_webhook_message post (the webhook_url) (Some (sm_content params))
                    (sm_username params) (sm_avatar_url params) None w of
               (Inl e, w') \<Rightarrow> (handle_error e, w')
             | (Inr result, w') \<Rightarrow>
                 if sm_response_format params = JSON then (dumps result, w')
                 else if result_success result then
                   (ascii ''Message sent successfully to '' @ APOS @ sm_webhook_name params @ APOS
                    @ ascii '' webhook.'', w')
                 else
                   (ascii ''Error: Failed to send message. '' @ py_str L (result_error result), w')))"

text \<open>\<open>d[k]\<close> for a key that holds a string.\<close>

definition str_at :: "(ustr \<times> json) list \<Rightarrow> ustr \<Rightarrow> ustr" where
  "str_at d k = (case map_of d k of Some (JStr x) \<Rightarrow> x | _ \<Rightarrow> [])"

text \<open>The preview of a card: its title and description, then every field.\<close>

definition preview_lines :: "(ustr \<times> json) list \<Rightarrow> ustr list" where
  "preview_lines embd =
     [ascii ''**'' @ str_at embd (ascii ''title'') @ ascii ''**'',
      str_at embd (ascii ''description''), []]
     @ concat (map (\<lambda>field. case field of
                       JObj kvs \<Rightarrow> [ascii ''**'' @ str_at kvs (ascii ''name'') @ ascii ''**'',
                                    str_at kvs (ascii ''value''), []]
                     | _ \<Rightarrow> [])
                 (case map_of embd (ascii ''fields'') of Some (JArr fs) \<Rightarrow> fs | _ \<Rightarrow> []))"

definition webhook_not_found :: "ustr \<Rightarrow> world \<Rightarrow> ustr" where
  "webhook_not_found nm w =
     (case load_webhooks w of
        Inl e \<Rightarrow> handle_error e
      | Inr webhooks \<Rightarrow>
          if available_webhooks webhooks \<noteq> [] then
            ascii ''Error: Webhook '' @ APOS @ nm @ APOS @ ascii '' not found. Available webhooks: ''
            @ join (ascii '', '') (available_webhooks webhooks)
          else
            ascii ''Error: Webhook '' @ APOS @ nm @ APOS
            @ ascii '' not found. No webhooks configured. Use discord_add_webhook first.'')"

definition discord_send_announcement ::
  "pylib \<Rightarrow> http \<Rightarrow> ustr \<Rightarrow> SendAnnouncementInput \<Rightarrow> world \<Rightarrow> ustr \<times> world" where
  "discord_send_announcement L post utcnow params w =
     (case get_webhook_url L w (sa_webhook_name params) of
        Inl e \<Rightarrow> (handle_error e, w)
      | Inr webhook_url \<Rightarrow>
          if \<not> truthy webhook_url then (webhook_not_found (sa_webhook_name params) w, w)
          else if sa_use_embed params then
            (let thumbnail = (if truthy (sa_thumbnail_url params) then sa_thumbnail_url params
                              else Some LIVING_LANDS_LOGO_URL);
                 embd = build_announcement_embed L utcnow (sa_version params) (sa_headline params)
                          (sa_changes params) (sa_download_url params) (sa_style params)
                          (sa_beta_warning params) (sa_embed_color params) thumbnail
                          (sa_footer_text params)
             in case send_webhook_message post (the webhook_url) None (sa_username params) None
                       (Some [JObj embd]) w of
                  (Inl e, w') \<Rightarrow> (handle_error e, w')
                | (Inr result, w') \<Rightarrow>
                    if sa_response_format params = JSON then
                      (dumps (JObj [(ascii ''result'', result),
                                    (ascii ''embed'', JObj embd),
                                    (ascii ''format'', JStr (ascii ''embed''))]), w')
                    else if result_success result then
                      (ascii ''Embed announcement sent successfully!'' @ NL @ NL
                       @ ascii ''**Preview:**'' @ NL @ join NL (preview_lines embd), w')
                    else
                      (ascii ''Error: Failed to send announcement. ''
                       @ py_str L (result_error result), w'))
          else
            (let announcement = format_announcement (sa_version params) (sa_headline params)
                                  (sa_changes params) (sa_download_url params) (sa_style params)
                                  (sa_beta_warning params)
             in if length announcement > DISCORD_MESSAGE_LIMIT then
                  (ascii ''Error: Announcement is too long ('' @ str_int (int (length announcement))
                   @ ascii '' chars). Discord limit is '' @ str_int (int DISCORD_MESSAGE_LIMIT)
                   @ ascii '' characters. Reduce the number of changes or shorten descriptions.'', w)
                else
                  (case send_webhook_message post (the webhook_url) (Some announcement)
                          (sa_username params) None None w of
                     (Inl e, w') \<Rightarrow> (handle_error e, w')
                   | (Inr result, w') \<Rightarrow>
                       if sa_response_format params = JSON then
                         (dumps (JObj [(ascii ''result'', result),
                                       (ascii ''announcement_preview'', JStr announcement),
                                       (ascii ''character_count'', JInt (int (length announcement))),
                                       (ascii ''format'', JStr (ascii ''plain_text''))]), w')
                       else if result_success result then
                         (ascii ''Announcement sent successfully!'' @ NL @ NL
                          @ ascii ''**Preview:**'' @ NL @ ascii ''```'' @ NL @ announcement @ NL
                          @ ascii ''```'', w')
                       else
                         (ascii ''Error: Failed to send announcement. ''
                          @ py_str L (result_error result), w'))))"

text \<open>\<open>now\<close> is \<open>datetime.now().isoformat()\<close>.\<close>

definition discord_add_webhook :: "ustr \<Rightarrow> AddWebhookInput \<Rightarrow> world \<Rightarrow> ustr \<times> world" where
  "discord_add_webhook now params w =
     (case load_webhooks w of
        Inl e \<Rightarrow> (ascii ''Error: Failed to save webhook configuration: '' @ exn_str e, w)
      | Inr webhooks \<Rightarrow>
          (let is_update = (map_of webhooks (aw_name params) \<noteq> None);
               webhooks' = AList.update (aw_name params)
                             [(ascii ''url'', Some (aw_url params)),
                              (ascii ''description'', aw_description params),
                              (ascii ''added_at'', Some now)] webhooks
           in case save_webhooks webhooks' w of
                Inl e \<Rightarrow> (ascii ''Error: Failed to save webhook configuration: '' @ exn_str e, w)
              | Inr w' \<Rightarrow>
                  (ascii ''Webhook '' @ APOS @ aw_name params @ APOS @ ascii '' ''
                   @ (if is_update then ascii ''updated'' else ascii ''added'')
                   @ ascii '' successfully. You can now use it with discord_send_message or discord_send_announcement.'',
                   w')))"

text \<open>
  The tool as the caller reaches it: the raw arguments are validated first, and the body
  runs only on a valid model.
\<close>

definition call_discord_add_webhook ::
  "pylib \<Rightarrow> ustr \<Rightarrow> ustr \<Rightarrow> ustr \<Rightarrow> ustr option \<Rightarrow> world
   \<Rightarrow> (validation_error list + ustr) \<times> world" where
  "call_discord_add_webhook L now raw_name raw_url raw_description w =
     (case AddWebhookInput_validate L raw_name raw_url raw_description of
        Inl errs \<Rightarrow> (Inl errs, w)
      | Inr params \<Rightarrow>
          (case discord_add_webhook now params w of (out, w') \<Rightarrow> (Inr out, w')))"

definition discord_remove_webhook :: "pylib \<Rightarrow> ustr \<Rightarrow> world \<Rightarrow> ustr \<times> world" where
  "discord_remove_webhook L nm w =
     (case load_webhooks w of
        Inl e \<Rightarrow> (ascii ''Error: Failed to remove webhook: '' @ exn_str e, w)
      | Inr webhooks \<Rightarrow>
          (let name_lower = lower L nm
           in if map_of webhooks name_lower = None then
                (if available_webhooks webhooks \<noteq> [] then
                   (ascii ''Error: Webhook '' @ APOS @ nm @ APOS @ ascii '' not found. Available webhooks: ''
                    @ join (ascii '', '') (available_webhooks webhooks), w)
                 else
                   (ascii ''Error: Webhook '' @ APOS @ nm @ APOS
                    @ ascii '' not found. No webhooks configured.'', w))
              else
                (case save_webhooks (AList.delete name_lower webhooks) w of
                   Inl e \<Rightarrow> (ascii ''Error: Failed to remove webhook: '' @ exn_str e, w)
                 | Inr w' \<Rightarrow>
                     (ascii ''Webhook '' @ APOS @ nm @ APOS @ ascii '' removed successfully.'', w'))))"

text \<open>
  \<open>url = config.get("url", ""); url_hint = f"...{url[-8:]}" if len(url) > 8 else url\<close>.
  \<open>len(None)\<close> raises \<open>TypeError\<close>.
\<close>

definition url_hint :: "entry \<Rightarrow> exn + ustr" where
  "url_hint config =
     (case dict_get_default config (ascii ''url'') (Some []) of
        None \<Rightarrow> Inl (TypeError (ascii ''object of type '' @ APOS @ ascii ''NoneType'' @ APOS
                                @ ascii '' has no len()''))
      | Some u \<Rightarrow>
          Inr (if length u > 8 then ascii ''...'' @ drop (length u - 8) u else u))"

fun json_of_opt :: "ustr option \<Rightarrow> json" where
  "json_of_opt None = JNull"
| "json_of_opt (Some x) = JStr x"

text \<open>The loop that fills \<open>sanitized\<close>.\<close>

fun sanitize :: "registry \<Rightarrow> (ustr \<times> json) list \<Rightarrow> exn + (ustr \<times> json) list" where
  "sanitize [] sanitized = Inr sanitized"
| "sanitize ((nm, config) # rest) sanitized =
     (case url_hint config of
        Inl e \<Rightarrow> Inl e
      | Inr hint \<Rightarrow>
          sanitize rest
            (AList.update nm
               (JObj [(ascii ''description'', json_of_opt (dict_get_default config (ascii ''description'') None)),
                      (ascii ''url_hint'', JStr hint),
                      (ascii ''added_at'', json_of_opt (dict_get_default config (ascii ''added_at'') None))])
               sanitized))"

text \<open>The loop that appends the lines of the markdown listing.\<close>

fun markdown_lines :: "registry \<Rightarrow> ustr list \<Rightarrow> exn + ustr list" where
  "markdown_lines [] lines = Inr lines"
| "markdown_lines ((nm, config) # rest) lines =
     (case url_hint config of
        Inl e \<Rightarrow> Inl e
      | Inr hint \<Rightarrow>
          (let desc = dict_get_default config (ascii ''description'') (Some (ascii ''No description''));
               added = dict_get_default config (ascii ''added_at'') (Some (ascii ''Unknown''))
           in markdown_lines rest
                (lines @ [ascii ''## '' @ nm,
                          ascii ''- **Description**: '' @ str_opt desc,
                          ascii ''- **URL hint**: `'' @ hint @ ascii ''`'',
                          ascii ''- **Added**: '' @ str_opt added,
                          []])))"

definition discord_list_webhooks :: "ResponseFormat \<Rightarrow> world \<Rightarrow> ustr" where
  "discord_list_webhooks fmt w =
     (case load_webhooks w of
        Inl e \<Rightarrow> ascii ''Error: Failed to list webhooks: '' @ exn_str e
      | Inr webhooks \<Rightarrow>
          if webhooks = [] then ascii ''No webhooks configured. Use discord_add_webhook to add one.''
          else if fmt = JSON then
            (case sanitize webhooks [] of
               Inl e \<Rightarrow> ascii ''Error: Failed to list webhooks: '' @ exn_str e
             | Inr sanitized \<Rightarrow> dumps (JObj sanitized))
          else
            (case markdown_lines webhooks [ascii ''# Configured Discord Webhooks'', []] of
               Inl e \<Rightarrow> ascii ''Error: Failed to list webhooks: '' @ exn_str e
             | Inr lines \<Rightarrow> join NL lines))"

section \<open>A library for examples\<close>

text \<open>
  A \<open>pylib\<close> for evaluating the model on concrete inputs. The examples below use Latin-1
  strings only, on which the library's tables are never consulted. \<open>empty_world\<close> is
  the state before anything was stored or sent, \<open>releases_world\<close> the state with one
  webhook, \<open>releases\<close>, configured.
\<close>

definition example_pylib :: pylib where
  "example_pylib =
     \<lparr>uni_lower = (\<lambda>s. s), uni_isalnum = (\<lambda>c. False), uni_isspace = (\<lambda>c. False),
      uni_to_ascii = (\<lambda>s. s), container_repr = (\<lambda>v. [])\<rparr>"

definition empty_world :: world where
  "empty_world = \<lparr>webhooks_file = Missing, write_error = None, posts = []\<rparr>"

definition example_url :: ustr where
  "example_url = ascii ''https://discord.com/api/webhooks/12345678901234567''"

definition releases_world :: world where
  "releases_world =
     \<lparr>webhooks_file =
        Document [(ascii ''releases'',
                   [(ascii ''url'', Some example_url), (ascii ''description'', None),
                    (ascii ''added_at'', Some (ascii ''2024-01-01T00:00:00''))])],
      write_error = None, posts = []\<rparr>"

text \<open>
  An announcement whose single change has 2001 characters, as plain text and as a rich
  card, and a service that answers every request with 204.
\<close>

definition long_plain_announcement :: SendAnnouncementInput where
  "long_plain_announcement =
     \<lparr>sa_webhook_name = ascii ''releases'', sa_version = ascii ''v1'', sa_headline = ascii ''Head'',
      sa_changes = [120 # replicate 2000 120], sa_download_url = None, sa_style = RELEASE,
      sa_beta_warning = False, sa_use_embed = False, sa_embed_color = None,
      sa_thumbnail_url = None, sa_footer_text = None, sa_username = None,
      sa_response_format = MARKDOWN\<rparr>"

definition long_embed_announcement :: SendAnnouncementInput where
  "long_embed_announcement = long_plain_announcement\<lparr>sa_use_embed := True\<rparr>"

definition always_204 :: http where
  "always_204 req = Inr \<lparr>status_code = 204, resp_text = [], resp_json = Inl []\<rparr>"

section \<open>Registries that differ in the hidden part of a URL\<close>

text \<open>
  Two stored values of \<open>url\<close> agree on what the listing may show when they are equal, or
  when both are strings of more than 8 characters with the same last 8 characters. Two
  entries differ only in the hidden part of the URL when they have the same keys in the
  same order, the same value under every key but \<open>url\<close>, and such values under \<open>url\<close>;
  two registries, when they hold such entries under the same names in the same order.
\<close>

definition last8 :: "ustr \<Rightarrow> ustr" where
  "last8 u = drop (length u - 8) u"

fun same_visible_url :: "ustr option \<Rightarrow> ustr option \<Rightarrow> bool" where
  "same_visible_url (Some u1) (Some u2) =
     (u1 = u2 \<or> (length u1 > 8 \<and> length u2 > 8 \<and> last8 u1 = last8 u2))"
| "same_visible_url v1 v2 = (v1 = v2)"

definition same_but_hidden_url :: "entry \<Rightarrow> entry \<Rightarrow> bool" where
  "same_but_hidden_url e1 e2 =
     list_all2 (\<lambda>kv1 kv2. fst kv1 = fst kv2
                  \<and> (if fst kv1 = ascii ''url'' then same_visible_url (snd kv1) (snd kv2)
                      else snd kv1 = snd kv2)) e1 e2"

definition registries_same_but_hidden_urls :: "registry \<Rightarrow> registry \<Rightarrow> bool" where
  "registries_same_but_hidden_urls r1 r2 =
     list_all2 (\<lambda>ne1 ne2. fst ne1 = fst ne2 \<and> same_but_hidden_url (snd ne1) (snd ne2)) r1 r2"

text \<open>Registries for the examples: one webhook \<open>releases\<close> with the given stored URL.\<close>

definition registry_with_url :: "ustr \<Rightarrow> registry" where
  "registry_with_url u =
     [(ascii ''releases'',
       [(ascii ''url'', Some u), (ascii ''description'', None),
        (ascii ''added_at'', Some (ascii ''2024-01-01T00:00:00''))])]"

definition world_with_url :: "ustr \<Rightarrow> world" where
  "world_with_url u = \<lparr>webhooks_file = Document (registry_with_url u), write_error = None, posts = []\<rparr>"

definition ellipsis_url :: ustr where
  "ellipsis_url = ascii ''https://discord.com/api/webhooks/123456/...abcdefgh''"

definition other_url :: ustr where
  "other_url = ascii ''https://discordapp.com/api/webhooks/99/zzz01234567''"

section \<open>Facts about strings\<close>

lemma str_replace_Nil: "old \<noteq> [] \<Longrightarrow> str_replace old new [] = []"
  by (simp add: str_replace.simps)

lemma str_replace_prefix:
  "old \<noteq> [] \<Longrightarrow> prefix old s \<Longrightarrow>
   str_replace old new s = new @ str_replace old new (drop (length old) s)"
  by (subst str_replace.simps, cases s) simp_all

lemma str_replace_Cons:
  "old \<noteq> [] \<Longrightarrow> \<not> prefix old (c # s) \<Longrightarrow>
   str_replace old new (c # s) = c # str_replace old new s"
  by (subst str_replace.simps) simp

lemma str_replace_absent:
  "old \<noteq> [] \<Longrightarrow> \<not> sublist old s \<Longrightarrow> str_replace old new s = s"
proof (induction s)
  case Nil
  then show ?case by (simp add: str_replace_Nil)
next
  case (Cons c s)
  have np: "\<not> prefix old (c # s)"
    using Cons.prems(2) prefix_imp_sublist by blast
  have ns: "\<not> sublist old s"
    using Cons.prems(2) by (simp add: sublist_Cons_right)
  show ?case
    using Cons.IH [OF Cons.prems(1) ns] str_replace_Cons [OF Cons.prems(1) np] by simp
qed

lemma ascii_arrow: "ascii ''->'' = [45, 62]"
  by (simp add: ascii_def)

section \<open>The plain-text builder's change lines\<close>

lemma announcement_lines_change:
  "i < length changes \<Longrightarrow>
   announcement_lines version headline changes download_url style beta_warning ! (4 + i)
     = change_line (changes ! i)"
  by (simp add: announcement_lines_def nth_append)

text \<open>
  Claim C3, as amended. The line that the plain-text builder emits for the \<open>i\<close>-th change
  (line \<open>4 + i\<close> of the announcement) is: the arrow glyph, a space and the change
  unmodified, when the change begins neither with the glyph nor with \<open>->\<close>; when it begins
  with \<open>->\<close>, the glyph followed by the rest of the change in which \<^emph>\<open>every\<close> further
  occurrence of \<open>->\<close> is replaced by the glyph too. The rest is passed through unmodified
  exactly when it contains no \<open>->\<close>.
\<close>

theorem change_line_emitted:
  assumes "i < length changes"
  shows "announcement_lines version headline changes download_url style beta_warning ! (4 + i)
           = change_line (changes ! i)
       \<and> (\<not> startswith (changes ! i) [ARROW] \<and> \<not> startswith (changes ! i) (ascii ''->'')
            \<longrightarrow> change_line (changes ! i) = [ARROW] @ ascii '' '' @ changes ! i)
       \<and> (startswith (changes ! i) (ascii ''->'')
            \<longrightarrow> change_line (changes ! i)
                  = [ARROW] @ str_replace (ascii ''->'') [ARROW] (drop 2 (changes ! i)))
       \<and> (startswith (changes ! i) (ascii ''->'') \<and> \<not> sublist (ascii ''->'') (drop 2 (changes ! i))
            \<longrightarrow> change_line (changes ! i) = [ARROW] @ drop 2 (changes ! i))"
proof -
  let ?c = "changes ! i"
  have a: "announcement_lines version headline changes download_url style beta_warning ! (4 + i)
           = change_line ?c"
    using assms by (rule announcement_lines_change)
  have b: "\<not> startswith ?c [ARROW] \<and> \<not> startswith ?c (ascii ''->'')
            \<longrightarrow> change_line ?c = [ARROW] @ ascii '' '' @ ?c"
    by (simp add: change_line_def)
  have c: "change_line ?c = [ARROW] @ str_replace (ascii ''->'') [ARROW] (drop 2 ?c)"
    if "startswith ?c (ascii ''->'')"
  proof -
    have "change_line ?c = str_replace (ascii ''->'') [ARROW] ?c"
      using that by (simp add: change_line_def)
    also have "\<dots> = [ARROW] @ str_replace (ascii ''->'') [ARROW] (drop (length (ascii ''->'')) ?c)"
      using that by (intro str_replace_prefix) (simp_all add: startswith_def ascii_arrow)
    finally show ?thesis by (simp add: ascii_arrow numeral_2_eq_2)
  qed
  have d: "change_line ?c = [ARROW] @ drop 2 ?c"
    if "startswith ?c (ascii ''->'')" "\<not> sublist (ascii ''->'') (drop 2 ?c)"
    using c [OF that(1)] str_replace_absent [OF _ that(2), of "[ARROW]"] by (simp add: ascii_arrow)
  from a b c d show ?thesis by blast
qed

text \<open>
  The theorem at \<open>changes = ["Fixed bug", "-> Added feature"]\<close>: the lines are
  \<open>"\<rightarrow> Fixed bug"\<close> and \<open>"\<rightarrow> Added feature"\<close>.
\<close>

theorem change_line_emitted_witness:
  "announcement_lines (ascii ''v1'') (ascii ''Head'') [ascii ''Fixed bug'', ascii ''-> Added feature'']
      None RELEASE False ! 4 = [ARROW] @ ascii '' Fixed bug''
   \<and> announcement_lines (ascii ''v1'') (ascii ''Head'') [ascii ''Fixed bug'', ascii ''-> Added feature'']
      None RELEASE False ! 5 = [ARROW] @ ascii '' Added feature''"
proof -
  let ?cs = "[ascii ''Fixed bug'', ascii ''-> Added feature'']"
  have l0: "(0::nat) < length ?cs" and l1: "(1::nat) < length ?cs" by simp_all
  have s0: "\<not> startswith (?cs ! 0) [ARROW] \<and> \<not> startswith (?cs ! 0) (ascii ''->'')"
    by (simp add: startswith_def ascii_def ARROW_def)
  have s1: "startswith (?cs ! 1) (ascii ''->'') \<and> \<not> sublist (ascii ''->'') (drop 2 (?cs ! 1))"
    by (simp add: startswith_def ascii_def sublist_code)
  from change_line_emitted [OF l0, of "ascii ''v1''" "ascii ''Head''" None RELEASE False] s0
  have "announcement_lines (ascii ''v1'') (ascii ''Head'') ?cs None RELEASE False ! 4
        = [ARROW] @ ascii '' '' @ ?cs ! 0"
    by (metis add.right_neutral)
  moreover
  from change_line_emitted [OF l1, of "ascii ''v1''" "ascii ''Head''" None RELEASE False] s1
  have "announcement_lines (ascii ''v1'') (ascii ''Head'') ?cs None RELEASE False ! 5
        = [ARROW] @ drop 2 (?cs ! 1)"
    by (metis numeral_plus_one semiring_norm(5))
  ultimately show ?thesis by (simp add: ascii_def)
qed

text \<open>
  Claim C3 as stated fails: the change \<open>"-> a -> b"\<close> begins with \<open>->\<close>, and the emitted
  line is \<open>"\<rightarrow> a \<rightarrow> b"\<close>: the second \<open>->\<close> has been replaced as well, so the text after
  the leading \<open>->\<close> is not passed through unmodified.
\<close>

theorem change_line_counterexample:
  "startswith (ascii ''-> a -> b'') (ascii ''->'')
   \<and> change_line (ascii ''-> a -> b'') = [ARROW] @ ascii '' a '' @ [ARROW] @ ascii '' b''
   \<and> change_line (ascii ''-> a -> b'') \<noteq> [ARROW] @ drop 2 (ascii ''-> a -> b'')"
  by (simp add: change_line_def startswith_def ascii_def ARROW_def
        str_replace_prefix str_replace_Cons str_replace_Nil)

section \<open>The colour of the rich card\<close>


lemma map_of_append_field:
  "k \<noteq> ascii ''fields'' \<Longrightarrow> map_of (append_field e f) k = map_of e k"
  by (simp add: append_field_def update_conv' split: option.splits json.splits)

lemma build_announcement_embed_color:
  "map_of (build_announcement_embed L utcnow version headline changes download_url style
             beta_warning embed_color thumbnail_url footer_text) (ascii ''color'')
   = Some (JInt (embed_color_of L embed_color style))"
  by (simp add: build_announcement_embed_def Let_def update_conv' map_of_append_field ascii_def)

lemma hex_digit_facts:
  "is_hex_digit c \<Longrightarrow> is_ascii c \<and> \<not> is_py_space c \<and> c \<noteq> 35 \<and> c \<noteq> 43 \<and> c \<noteq> 45 \<and> c \<noteq> 95
     \<and> c \<noteq> 120 \<and> c \<noteq> 88"
  by (auto simp: is_hex_digit_def hex_digit_value_def is_ascii_def is_py_space_def split: if_splits)

lemma adjacent_underscores_hex:
  "list_all is_hex_digit h \<Longrightarrow> \<not> adjacent_underscores h"
  by (induction h rule: adjacent_underscores.induct) (auto dest: hex_digit_facts)

lemma takeWhile_all: "list_all P h \<Longrightarrow> takeWhile (\<lambda>c. P c \<or> Q c) h = h"
  by (induction h) auto

lemma dropWhile_all: "list_all P h \<Longrightarrow> dropWhile (\<lambda>c. P c \<or> Q c) h = []"
  by (induction h) auto

lemma parse_int16_hex:
  assumes "h \<noteq> []" "list_all is_hex_digit h"
  shows "parse_int16 h = Some (hex_value h)"
proof -
  obtain c cs where h: "h = c # cs" using assms(1) by (cases h) auto
  have c: "is_hex_digit c" using assms(2) h by simp
  note f = hex_digit_facts [OF c]
  have t1: "dropWhile is_py_space h = h" using f h by simp
  have nosign: "\<not> startswith h (ascii ''+'')" "\<not> startswith h (ascii ''-'')"
    "\<not> startswith h (ascii ''_'')"
    using f h by (simp_all add: startswith_def ascii_def)
  have noprefix: "\<not> startswith h (ascii ''0x'')" "\<not> startswith h (ascii ''0X'')"
  proof -
    { fix d ds assume "cs = d # ds"
      then have "is_hex_digit d" using assms(2) h by simp
      from hex_digit_facts [OF this] have "d \<noteq> 120 \<and> d \<noteq> 88" by simp }
    then show "\<not> startswith h (ascii ''0x'')" "\<not> startswith h (ascii ''0X'')"
      using h by (cases cs; simp add: startswith_def ascii_def)+
  qed
  have run: "takeWhile (\<lambda>c. is_hex_digit c \<or> c = 95) h = h"
    and rest: "dropWhile (\<lambda>c. is_hex_digit c \<or> c = 95) h = []"
    using assms(2) by (rule takeWhile_all, rule dropWhile_all)
  have lst: "last h \<noteq> 95"
  proof -
    have "last h \<in> set h" using assms(1) by simp
    then have "is_hex_digit (last h)" using assms(2) by (simp add: list_all_iff)
    from hex_digit_facts [OF this] show ?thesis by simp
  qed
  show ?thesis
    unfolding parse_int16_def Let_def t1
    using nosign noprefix adjacent_underscores_hex [OF assms(2)] lst assms(1)
    by (simp add: run rest)
qed

lemma int16_hex:
  assumes "h \<noteq> []" "list_all is_hex_digit h"
  shows "int16 L h = Some (hex_value h)"
proof -
  have "list_all is_ascii h"
    using assms(2) by (induction h) (auto dest: hex_digit_facts)
  then show ?thesis by (simp add: int16_def parse_int16_hex [OF assms])
qed

lemma lstrip_hash_hex:
  assumes "h \<noteq> []" "list_all is_hex_digit h"
  shows "lstrip (ascii ''#'' @ h) (ascii ''#'') = h" "lstrip h (ascii ''#'') = h"
proof -
  obtain c cs where h: "h = c # cs" using assms(1) by (cases h) auto
  have "is_hex_digit c" using assms(2) h by simp
  from hex_digit_facts [OF this] have "c \<noteq> 35" by simp
  then show "lstrip (ascii ''#'' @ h) (ascii ''#'') = h" "lstrip h (ascii ''#'') = h"
    using h by (simp_all add: lstrip_def ascii_def)
qed

text \<open>
  Claim C7. In the rich-card builder the \<open>color\<close> of the card is \<open>embed_color_of\<close>. When
  \<open>embed_color\<close> is absent (or empty) it is the style default: release \<open>0x57F287\<close>, hotfix
  \<open>0xED4245\<close>, beta \<open>0xFEE75C\<close>, custom \<open>0x5865F2\<close>. A non-empty string of hex digits
  gives its hexadecimal value, with or without a leading \<open>#\<close>. Whenever the parse fails
  the colour is the style default; the builder is a total function, so it does not fail.
\<close>

theorem embed_color_default_or_hex:
  "(\<not> truthy embed_color \<longrightarrow> embed_color_of L embed_color style = color_map style)
   \<and> color_map RELEASE = 0x57F287 \<and> color_map HOTFIX = 0xED4245
   \<and> color_map BETA = 0xFEE75C \<and> color_map CUSTOM = 0x5865F2
   \<and> (h \<noteq> [] \<and> list_all is_hex_digit h \<longrightarrow>
        embed_color_of L (Some (ascii ''#'' @ h)) style = hex_value h
        \<and> embed_color_of L (Some h) style = hex_value h)
   \<and> (int16 L (lstrip s (ascii ''#'')) = None \<longrightarrow> embed_color_of L (Some s) style = color_map style)
   \<and> map_of (build_announcement_embed L utcnow version headline changes download_url style
               beta_warning embed_color thumbnail_url footer_text) (ascii ''color'')
       = Some (JInt (embed_color_of L embed_color style))"
proof -
  have a: "\<not> truthy embed_color \<longrightarrow> embed_color_of L embed_color style = color_map style"
    by (simp add: embed_color_of_def)
  have b: "embed_color_of L (Some (ascii ''#'' @ h)) style = hex_value h
           \<and> embed_color_of L (Some h) style = hex_value h"
    if "h \<noteq> []" "list_all is_hex_digit h"
    using that lstrip_hash_hex [OF that] int16_hex [OF that]
    by (simp add: embed_color_of_def ascii_def)
  have c: "int16 L (lstrip s (ascii ''#'')) = None \<longrightarrow> embed_color_of L (Some s) style = color_map style"
    by (simp add: embed_color_of_def)
  show ?thesis
    using a b c build_announcement_embed_color by simp
qed


text \<open>
  The theorem for a hotfix: no colour gives red, \<open>#5865F2\<close> and \<open>5865F2\<close> give
  \<open>0x5865F2\<close>, and \<open>not-hex\<close> falls back to red.
\<close>

theorem embed_color_default_or_hex_witness:
  "embed_color_of example_pylib None HOTFIX = 0xED4245
   \<and> embed_color_of example_pylib (Some (ascii ''#'' @ ascii ''5865F2'')) HOTFIX = 0x5865F2
   \<and> embed_color_of example_pylib (Some (ascii ''5865F2'')) HOTFIX = 0x5865F2
   \<and> embed_color_of example_pylib (Some (ascii ''not-hex'')) HOTFIX = 0xED4245"
proof -
  have h: "ascii ''5865F2'' \<noteq> [] \<and> list_all is_hex_digit (ascii ''5865F2'')"
    by (simp add: ascii_def is_hex_digit_def hex_digit_value_def)
  have v: "hex_value (ascii ''5865F2'') = 0x5865F2"
    by (simp add: hex_value_def ascii_def hex_digit_value_def)
  have n: "int16 example_pylib (lstrip (ascii ''not-hex'') (ascii ''#'')) = None"
    by (simp add: int16_def lstrip_def ascii_def is_ascii_def parse_int16_def Let_def
          is_py_space_def startswith_def is_hex_digit_def hex_digit_value_def)
  have t: "\<not> truthy None" by simp
  from embed_color_default_or_hex [of None example_pylib HOTFIX "ascii ''5865F2''" "ascii ''not-hex''"]
    h v n t
  show ?thesis by simp
qed

section \<open>Validation of add-webhook's input\<close>

lemma lower_example: "lower example_pylib (ascii ''My Hook'') = ascii ''my hook''"
  by (simp add: lower_def ascii_def is_latin1_def latin1_lower_def)

lemma replace_example: "str_replace (ascii '' '') (ascii ''_'') (ascii ''my hook'') = ascii ''my_hook''"
  by (simp add: ascii_def str_replace_prefix str_replace_Cons str_replace_Nil)

lemma strip_noop:
  "s \<noteq> [] \<Longrightarrow> \<not> is_whitespace L (hd s) \<Longrightarrow> \<not> is_whitespace L (last s) \<Longrightarrow> strip_whitespace L s = s"
proof -
  assume a: "s \<noteq> []" "\<not> is_whitespace L (hd s)" "\<not> is_whitespace L (last s)"
  have 1: "dropWhile (is_whitespace L) s = s"
    using a(1,2) by (cases s) auto
  from a(1) obtain x xs where r: "rev s = x # xs" by (cases "rev s") auto
  have "hd (rev s) = last s" using a(1) by (simp add: hd_rev)
  then have "x = last s" using r by simp
  then have "dropWhile (is_whitespace L) (x # xs) = x # xs"
    using a(3) by simp
  then have 2: "dropWhile (is_whitespace L) (rev s) = rev s"
    by (simp only: r)
  show ?thesis by (simp add: strip_whitespace_def 1 2)
qed


lemma url_field_Inr_iff:
  "url_field L raw = Inr v \<longleftrightarrow>
     v = strip_whitespace L raw \<and> 50 \<le> length v \<and> length v \<le> 300
     \<and> (startswith v WEBHOOK_PREFIX_1 \<or> startswith v WEBHOOK_PREFIX_2)"
  by (auto simp: url_field_def str_field_def validate_webhook_url_def Let_def split: sum.splits if_splits)

lemma call_add_rejects_url:
  "isl (url_field L raw_url) \<Longrightarrow>
   \<exists>errs. call_discord_add_webhook L now raw_name raw_url raw_description w = (Inl errs, w)"
  by (cases "url_field L raw_url"; cases "name_field L raw_name";
      cases "description_field L raw_description")
     (simp_all add: call_discord_add_webhook_def AddWebhookInput_validate_def)

lemma call_add_rejects_name:
  "isl (name_field L raw_name) \<Longrightarrow>
   \<exists>errs. call_discord_add_webhook L now raw_name raw_url raw_description w = (Inl errs, w)"
  by (cases "url_field L raw_url"; cases "name_field L raw_name";
      cases "description_field L raw_description")
     (simp_all add: call_discord_add_webhook_def AddWebhookInput_validate_def)

text \<open>
  Claim C5, as amended. The \<open>url\<close> field of add-webhook accepts a string if and only if,
  once leading and trailing whitespace has been stripped from it, it starts with
  \<open>https://discord.com/api/webhooks/\<close> or \<open>https://discordapp.com/api/webhooks/\<close>
  and has between 50 and 300 characters; the accepted value is the stripped string. Any
  other string is a validation failure at the boundary: the tool body does not run and
  the outside world is unchanged.
\<close>

theorem url_field_accepts_iff:
  "(url_field L raw = Inr v \<longleftrightarrow>
      v = strip_whitespace L raw \<and> 50 \<le> length v \<and> length v \<le> 300
      \<and> (startswith v WEBHOOK_PREFIX_1 \<or> startswith v WEBHOOK_PREFIX_2))
   \<and> (isl (url_field L raw) \<longrightarrow>
        (\<exists>errs. call_discord_add_webhook L now raw_name raw raw_description w = (Inl errs, w)))
   \<and> WEBHOOK_PREFIX_1 = ascii ''https://discord.com/api/webhooks/''
   \<and> WEBHOOK_PREFIX_2 = ascii ''https://discordapp.com/api/webhooks/''"
  using url_field_Inr_iff call_add_rejects_url
  by (simp add: WEBHOOK_PREFIX_1_def WEBHOOK_PREFIX_2_def)

lemma strip_example:
  "strip_whitespace example_pylib (ascii '' https://discord.com/api/webhooks/12345678901234567'')
   = ascii ''https://discord.com/api/webhooks/12345678901234567''"
  by (simp add: strip_whitespace_def is_whitespace_def ascii_def example_pylib_def)

text \<open>
  Claim C5 as stated fails: a valid 50-character URL preceded by a space does not start
  with either prefix, yet it is accepted (as the stripped URL).
\<close>

theorem url_field_counterexample:
  "url_field example_pylib (ascii '' https://discord.com/api/webhooks/12345678901234567'')
     = Inr (ascii ''https://discord.com/api/webhooks/12345678901234567'')
   \<and> \<not> startswith (ascii '' https://discord.com/api/webhooks/12345678901234567'')
         (ascii ''https://discord.com/api/webhooks/'')
   \<and> \<not> startswith (ascii '' https://discord.com/api/webhooks/12345678901234567'')
         (ascii ''https://discordapp.com/api/webhooks/'')"
  by (simp add: url_field_def str_field_def Let_def strip_example validate_webhook_url_def
        WEBHOOK_PREFIX_1_def WEBHOOK_PREFIX_2_def)
     (simp add: ascii_def startswith_def)

text \<open>
  The theorem for C5 at a valid 50-character URL (accepted) and at one with the scheme
  \<open>http\<close> (rejected, the registry untouched).
\<close>

theorem url_field_accepts_iff_witness:
  "url_field example_pylib (ascii ''https://discord.com/api/webhooks/12345678901234567'')
     = Inr (ascii ''https://discord.com/api/webhooks/12345678901234567'')
   \<and> isl (url_field example_pylib (ascii ''http://discord.com/api/webhooks/123456789012345678''))
   \<and> isl (fst (call_discord_add_webhook example_pylib (ascii ''2024-01-01T00:00:00'') (ascii ''releases'')
                 (ascii ''http://discord.com/api/webhooks/123456789012345678'') None empty_world))
   \<and> snd (call_discord_add_webhook example_pylib (ascii ''2024-01-01T00:00:00'') (ascii ''releases'')
                 (ascii ''http://discord.com/api/webhooks/123456789012345678'') None empty_world)
       = empty_world"
proof -
  let ?good = "ascii ''https://discord.com/api/webhooks/12345678901234567''"
  let ?bad = "ascii ''http://discord.com/api/webhooks/123456789012345678''"
  have sg: "strip_whitespace example_pylib ?good = ?good"
    by (rule strip_noop) (simp_all add: ascii_def is_whitespace_def example_pylib_def)
  have sb: "strip_whitespace example_pylib ?bad = ?bad"
    by (rule strip_noop) (simp_all add: ascii_def is_whitespace_def example_pylib_def)
  have lg: "length ?good = 50" by (simp add: ascii_def)
  have pg: "startswith ?good WEBHOOK_PREFIX_1"
    by (simp add: startswith_def WEBHOOK_PREFIX_1_def ascii_def)
  have pb: "\<not> startswith ?bad WEBHOOK_PREFIX_1" "\<not> startswith ?bad WEBHOOK_PREFIX_2"
    by (simp_all add: startswith_def WEBHOOK_PREFIX_1_def WEBHOOK_PREFIX_2_def ascii_def)
  have good: "url_field example_pylib ?good = Inr ?good"
    using url_field_accepts_iff [of example_pylib ?good ?good] sg lg pg by simp
  have "\<And>v. url_field example_pylib ?bad \<noteq> Inr v"
    using url_field_accepts_iff [of example_pylib ?bad] sb pb by simp
  then have bad: "isl (url_field example_pylib ?bad)"
    by (cases "url_field example_pylib ?bad") auto
  from url_field_accepts_iff [of example_pylib ?bad _ "ascii ''2024-01-01T00:00:00''"
         "ascii ''releases''" None empty_world] bad
  obtain errs where "call_discord_add_webhook example_pylib (ascii ''2024-01-01T00:00:00'')
      (ascii ''releases'') ?bad None empty_world = (Inl errs, empty_world)"
    by blast
  with good bad show ?thesis by simp
qed


lemma set_str_replace_remove:
  "set (str_replace [x] [] s) = set s - {x}"
proof (induction s)
  case Nil
  then show ?case by (simp add: str_replace_Nil)
next
  case (Cons c s)
  show ?case
  proof (cases "c = x")
    case True
    then have "str_replace [x] [] (c # s) = [] @ str_replace [x] [] (drop (length [x]) (c # s))"
      by (intro str_replace_prefix) simp_all
    with Cons True show ?thesis by auto
  next
    case False
    then have "str_replace [x] [] (c # s) = c # str_replace [x] [] s"
      by (intro str_replace_Cons) simp_all
    with Cons False show ?thesis by auto
  qed
qed

lemma ascii_underscore: "ascii ''_'' = [95]"
  by (simp add: ascii_def)

lemma validate_name_Inr:
  "validate_name L v = Inr n \<Longrightarrow> n = str_replace (ascii '' '') (ascii ''_'') (lower L v)"
  by (simp add: validate_name_def Let_def split: if_splits)

lemma validate_name_rejects:
  assumes "c \<in> set (str_replace (ascii '' '') (ascii ''_'') (lower L v))" "c \<noteq> 95" "\<not> isalnum_cp L c"
  shows "isl (validate_name L v)"
proof -
  let ?n = "str_replace (ascii '' '') (ascii ''_'') (lower L v)"
  have "c \<in> set (str_replace (ascii ''_'') [] ?n)"
    using assms(1,2) by (simp add: ascii_underscore set_str_replace_remove)
  then have "\<not> isalnum L (str_replace (ascii ''_'') [] ?n)"
    using assms(3) by (auto simp: isalnum_def list_all_iff)
  then show ?thesis by (simp add: validate_name_def Let_def)
qed

lemma validate_name_rejects_underscores:
  assumes "set (str_replace (ascii '' '') (ascii ''_'') (lower L v)) \<subseteq> {95}"
  shows "isl (validate_name L v)"
proof -
  let ?n = "str_replace (ascii '' '') (ascii ''_'') (lower L v)"
  have "set (str_replace (ascii ''_'') [] ?n) = {}"
    using assms by (auto simp: ascii_underscore set_str_replace_remove)
  then have "\<not> isalnum L (str_replace (ascii ''_'') [] ?n)"
    by (simp add: isalnum_def)
  then show ?thesis by (simp add: validate_name_def Let_def)
qed

lemma name_field_cases:
  "name_field L raw = Inr n \<Longrightarrow> validate_name L (strip_whitespace L raw) = Inr n"
  by (auto simp: name_field_def str_field_def Let_def split: sum.splits if_splits)

lemma name_field_rejects:
  "isl (validate_name L (strip_whitespace L raw)) \<Longrightarrow> isl (name_field L raw)"
  by (auto simp: name_field_def str_field_def Let_def split: sum.splits if_splits)

lemma isalnum_cp_ascii:
  "is_ascii c \<Longrightarrow>
   isalnum_cp L c = ((48 \<le> c \<and> c \<le> 57) \<or> (65 \<le> c \<and> c \<le> 90) \<or> (97 \<le> c \<and> c \<le> 122))"
  by (auto simp: isalnum_cp_def is_ascii_def is_latin1_def latin1_isalnum_def)

text \<open>
  Claim C4, as amended. add-webhook strips the name, lowercases it and converts spaces to
  underscores; an accepted name is that normalized string. It rejects, with a validation
  error and before any side effect (the outside world is unchanged), every name whose
  normalized form contains a character that is neither an underscore nor alphanumeric in
  the sense of \<open>str.isalnum\<close>, and every name whose normalized form consists of underscores
  only. An ASCII character is alphanumeric exactly when it is a letter or a digit;
  alphanumeric characters beyond ASCII are accepted.
\<close>

theorem name_field_normalizes_and_rejects:
  "(name_field L raw = Inr n \<longrightarrow>
      n = str_replace (ascii '' '') (ascii ''_'') (lower L (strip_whitespace L raw)))
   \<and> ((\<exists>c \<in> set (str_replace (ascii '' '') (ascii ''_'') (lower L (strip_whitespace L raw))).
          c \<noteq> 95 \<and> \<not> isalnum_cp L c)
        \<longrightarrow> isl (name_field L raw))
   \<and> (set (str_replace (ascii '' '') (ascii ''_'') (lower L (strip_whitespace L raw))) \<subseteq> {95}
        \<longrightarrow> isl (name_field L raw))
   \<and> (is_ascii c \<longrightarrow>
        isalnum_cp L c = ((48 \<le> c \<and> c \<le> 57) \<or> (65 \<le> c \<and> c \<le> 90) \<or> (97 \<le> c \<and> c \<le> 122)))
   \<and> (isl (name_field L raw) \<longrightarrow>
        (\<exists>errs. call_discord_add_webhook L now raw raw_url raw_description w = (Inl errs, w)))"
  using validate_name_Inr [OF name_field_cases, of L raw n]
        name_field_rejects [OF validate_name_rejects, of _ L raw]
        name_field_rejects [OF validate_name_rejects_underscores, of L raw]
        isalnum_cp_ascii [of c L]
        call_add_rejects_name [of L raw now raw_url raw_description w]
  by blast

text \<open>
  The theorem for C4 at \<open>My Hook\<close> (stored as \<open>my_hook\<close>) and at \<open>bad-name\<close> (rejected,
  the registry untouched).
\<close>

theorem name_field_normalizes_and_rejects_witness:
  "name_field example_pylib (ascii ''My Hook'') = Inr (ascii ''my_hook'')
   \<and> isl (name_field example_pylib (ascii ''bad-name''))
   \<and> isl (fst (call_discord_add_webhook example_pylib (ascii ''2024-01-01T00:00:00'') (ascii ''bad-name'')
                 (ascii ''https://discord.com/api/webhooks/12345678901234567'') None empty_world))
   \<and> snd (call_discord_add_webhook example_pylib (ascii ''2024-01-01T00:00:00'') (ascii ''bad-name'')
                 (ascii ''https://discord.com/api/webhooks/12345678901234567'') None empty_world)
       = empty_world"
proof -
  let ?bad = "ascii ''bad-name''"
  have s1: "strip_whitespace example_pylib (ascii ''My Hook'') = ascii ''My Hook''"
    by (rule strip_noop) (simp_all add: ascii_def is_whitespace_def example_pylib_def)
  have "isalnum example_pylib (str_replace (ascii ''_'') [] (ascii ''my_hook''))"
    by (simp add: ascii_def str_replace_prefix str_replace_Cons str_replace_Nil isalnum_def
          isalnum_cp_def is_latin1_def latin1_isalnum_def)
  then have "name_field example_pylib (ascii ''My Hook'') = Inr (ascii ''my_hook'')"
    by (simp add: name_field_def str_field_def Let_def s1 validate_name_def lower_example
          replace_example) (simp add: ascii_def)
  moreover
  have s2: "strip_whitespace example_pylib ?bad = ?bad"
    by (rule strip_noop) (simp_all add: ascii_def is_whitespace_def example_pylib_def)
  have n2: "str_replace (ascii '' '') (ascii ''_'') (lower example_pylib ?bad) = ?bad"
    by (simp add: lower_def ascii_def is_latin1_def latin1_lower_def str_replace_Cons str_replace_Nil)
  have "\<exists>c \<in> set (str_replace (ascii '' '') (ascii ''_'')
                    (lower example_pylib (strip_whitespace example_pylib ?bad))).
          c \<noteq> 95 \<and> \<not> isalnum_cp example_pylib c"
    unfolding s2 n2
    by (rule bexI [of _ 45]) (simp_all add: ascii_def isalnum_cp_def is_latin1_def latin1_isalnum_def)
  with name_field_normalizes_and_rejects [of example_pylib ?bad _ _ "ascii ''2024-01-01T00:00:00''"
         "ascii ''https://discord.com/api/webhooks/12345678901234567''" None empty_world]
  obtain errs where "isl (name_field example_pylib ?bad)"
    "call_discord_add_webhook example_pylib (ascii ''2024-01-01T00:00:00'') ?bad
       (ascii ''https://discord.com/api/webhooks/12345678901234567'') None empty_world
     = (Inl errs, empty_world)"
    by blast
  ultimately show ?thesis by simp
qed

text \<open>
  Claim C4 as stated fails: the name \<open>caf\<close> followed by U+00E9 (e with acute accent)
  contains a character outside \<open>[a-z0-9_]\<close> after normalization, and add-webhook accepts it
  and stores the webhook under that name.
\<close>

theorem name_field_counterexample:
  "name_field example_pylib (ascii ''caf'' @ [0xE9]) = Inr (ascii ''caf'' @ [0xE9])
   \<and> \<not> ((97 \<le> (0xE9::int) \<and> (0xE9::int) \<le> 122) \<or> (48 \<le> (0xE9::int) \<and> (0xE9::int) \<le> 57)
         \<or> (0xE9::int) = 95)
   \<and> fst (call_discord_add_webhook example_pylib (ascii ''2024-01-01T00:00:00'') (ascii ''caf'' @ [0xE9])
             (ascii ''https://discord.com/api/webhooks/12345678901234567'') None empty_world)
       = Inr (ascii ''Webhook '' @ APOS @ ascii ''caf'' @ [0xE9] @ APOS
              @ ascii '' added successfully. You can now use it with discord_send_message or discord_send_announcement.'')
   \<and> webhooks_file (snd (call_discord_add_webhook example_pylib (ascii ''2024-01-01T00:00:00'')
             (ascii ''caf'' @ [0xE9])
             (ascii ''https://discord.com/api/webhooks/12345678901234567'') None empty_world))
       = Document [(ascii ''caf'' @ [0xE9],
                    [(ascii ''url'', Some (ascii ''https://discord.com/api/webhooks/12345678901234567'')),
                     (ascii ''description'', None),
                     (ascii ''added_at'', Some (ascii ''2024-01-01T00:00:00''))])]"
proof -
  let ?n = "ascii ''caf'' @ [0xE9]"
  let ?u = "ascii ''https://discord.com/api/webhooks/12345678901234567''"
  have s: "strip_whitespace example_pylib ?n = ?n"
    by (rule strip_noop) (simp_all add: ascii_def is_whitespace_def example_pylib_def)
  have l: "lower example_pylib ?n = ?n"
    by (simp add: lower_def ascii_def is_latin1_def latin1_lower_def)
  have r1: "str_replace (ascii '' '') (ascii ''_'') ?n = ?n"
    by (simp add: ascii_def str_replace_Cons str_replace_Nil)
  have r2: "str_replace (ascii ''_'') [] ?n = ?n"
    by (simp add: ascii_def str_replace_Cons str_replace_Nil)
  have a: "isalnum example_pylib ?n"
    by (simp add: ascii_def isalnum_def isalnum_cp_def is_latin1_def latin1_isalnum_def)
  have len: "length ?n = 4" by (simp add: ascii_def)
  have nf: "name_field example_pylib ?n = Inr ?n"
    using len by (simp add: name_field_def str_field_def Let_def s validate_name_def l r1 r2 a)
  have su: "strip_whitespace example_pylib ?u = ?u"
    by (rule strip_noop) (simp_all add: ascii_def is_whitespace_def example_pylib_def)
  have lu: "length ?u = 50" by (simp add: ascii_def)
  have pu: "startswith ?u WEBHOOK_PREFIX_1"
    by (simp add: startswith_def WEBHOOK_PREFIX_1_def ascii_def)
  have uf: "url_field example_pylib ?u = Inr ?u"
    by (simp add: url_field_def str_field_def Let_def su lu validate_webhook_url_def pu)
  have v: "AddWebhookInput_validate example_pylib ?n ?u None
           = Inr \<lparr>aw_name = ?n, aw_url = ?u, aw_description = None\<rparr>"
    by (simp add: AddWebhookInput_validate_def nf uf description_field_def)
  have c: "call_discord_add_webhook example_pylib (ascii ''2024-01-01T00:00:00'') ?n ?u None empty_world
           = (Inr (ascii ''Webhook '' @ APOS @ ?n @ APOS
              @ ascii '' added successfully. You can now use it with discord_send_message or discord_send_announcement.''),
              empty_world\<lparr>webhooks_file := Document [(?n,
                    [(ascii ''url'', Some ?u), (ascii ''description'', None),
                     (ascii ''added_at'', Some (ascii ''2024-01-01T00:00:00''))])]\<rparr>)"
    by (simp add: call_discord_add_webhook_def v discord_add_webhook_def load_webhooks_def
          empty_world_def save_webhooks_def Let_def; simp add: ascii_def)
  show ?thesis
    unfolding c using nf by simp
qed

section \<open>Loading the registry\<close>

text \<open>
  Claim C8. \<open>_load_webhooks\<close> returns the empty map when the file is missing, when it
  cannot be opened or read (\<open>OSError\<close>) and when its text is not JSON
  (\<open>JSONDecodeError\<close>). It does raise, however, when the file's bytes do not decode as
  text: \<open>UnicodeDecodeError\<close> is a \<open>ValueError\<close> that is neither a \<open>JSONDecodeError\<close> nor an
  \<open>OSError\<close>, so the handler lets it through. The corrupt file then surfaces as an error
  of list-webhooks, and add-webhook fails without rewriting the file.
\<close>

theorem load_webhooks_cases:
  "load_webhooks (w\<lparr>webhooks_file := Missing\<rparr>) = Inr []
   \<and> load_webhooks (w\<lparr>webhooks_file := Unreadable cls m\<rparr>) = Inr []
   \<and> load_webhooks (w\<lparr>webhooks_file := Malformed m\<rparr>) = Inr []
   \<and> load_webhooks (w\<lparr>webhooks_file := Document d\<rparr>) = Inr d
   \<and> load_webhooks (w\<lparr>webhooks_file := Undecodable m\<rparr>) = Inl (UnicodeDecodeError m)
   \<and> discord_list_webhooks fmt (w\<lparr>webhooks_file := Undecodable m\<rparr>)
       = ascii ''Error: Failed to list webhooks: '' @ m
   \<and> discord_add_webhook now params (w\<lparr>webhooks_file := Undecodable m\<rparr>)
       = (ascii ''Error: Failed to save webhook configuration: '' @ m,
          w\<lparr>webhooks_file := Undecodable m\<rparr>)"
  by (simp add: load_webhooks_def discord_list_webhooks_def discord_add_webhook_def)

section \<open>Failed dispatches\<close>

lemma dispatch_result_no_HTTPStatusError: "dispatch_result r \<noteq> Inl (HTTPStatusError s)"
  by (simp add: dispatch_result_def Let_def split: sum.splits json.splits)

lemma dispatch_result_failure:
  assumes "status_code r \<noteq> 204" "status_code r \<noteq> 200" "dispatch_result r = Inr result"
  shows "\<not> result_success result
         \<and> result_error result
             = (case resp_json r of
                  Inr (JObj kvs) \<Rightarrow> dict_get_default kvs (ascii ''message'') (JStr (resp_text r))
                | _ \<Rightarrow> JStr (resp_text r))"
  using assms
  by (auto simp: dispatch_result_def Let_def result_success_def result_error_def
        dict_get_default_def ascii_def split: sum.splits json.splits)

lemma dispatch_result_failure_ex:
  assumes "status_code r \<noteq> 204" "status_code r \<noteq> 200"
    "\<And>j. resp_json r = Inr j \<Longrightarrow> \<exists>kvs. j = JObj kvs"
  shows "\<exists>result. dispatch_result r = Inr result"
  using assms
  by (auto simp: dispatch_result_def Let_def split: sum.splits json.splits)

lemma discord_send_message_failure:
  assumes "get_webhook_url L w (sm_webhook_name p) = Inr (Some u)" "u \<noteq> []"
    "post \<lparr>req_url = u, req_json = payload_of (Some (sm_content p)) (sm_username p) (sm_avatar_url p) None\<rparr> = Inr r"
    "sm_response_format p = MARKDOWN" "dispatch_result r = Inr result" "\<not> result_success result"
  shows "fst (discord_send_message L post p w)
         = ascii ''Error: Failed to send message. '' @ py_str L (result_error result)"
  using assms by (simp add: discord_send_message_def send_webhook_message_def Let_def)

lemma handle_error_429_Rate_limited:
  "sublist (ascii ''Rate limited'') (handle_error (HTTPStatusError 429))"
proof -
  have "handle_error (HTTPStatusError 429)
        = ascii ''Error: '' @ ascii ''Rate limited''
          @ ascii ''. Too many requests. Please wait before sending more messages.''"
    by (simp add: ascii_def)
  then show ?thesis by (simp only: sublist_appendI)
qed

lemma handle_error_404_Webhook_not_found:
  "sublist (ascii ''Webhook not found'') (handle_error (HTTPStatusError 404))"
proof -
  have "handle_error (HTTPStatusError 404)
        = ascii ''Error: '' @ ascii ''Webhook not found''
          @ ascii ''. The webhook URL may be invalid or deleted.''"
    by (simp add: ascii_def)
  then show ?thesis by (simp only: sublist_appendI)
qed

text \<open>
  Claim C2, as amended. For a response whose status is neither 204 nor 200 the dispatch
  result is a failure: \<open>success\<close> is false and the error is the \<open>message\<close> field of the
  response body when the body parses as a JSON object that has one, else the raw body
  text (a body that parses as JSON but is not an object makes the dispatch raise
  \<open>AttributeError\<close>). send-message then answers \<open>Error: Failed to send message.\<close> followed
  by that error. The dispatch never raises \<open>HTTPStatusError\<close> for a response it received.
  The status-code table is what the error formatter returns for an \<open>HTTPStatusError\<close>:
  tailored messages for 400, 401, 403, 404 (containing \<open>Webhook not found\<close>) and 429
  (containing \<open>Rate limited\<close>), and \<open>Error: Discord API returned status N\<close> otherwise.
\<close>

theorem dispatch_failure_report:
  assumes "status_code r \<noteq> 204" "status_code r \<noteq> 200"
  shows "(\<forall>result. dispatch_result r = Inr result \<longrightarrow>
            \<not> result_success result
            \<and> result_error result
                = (case resp_json r of
                     Inr (JObj kvs) \<Rightarrow> dict_get_default kvs (ascii ''message'') (JStr (resp_text r))
                   | _ \<Rightarrow> JStr (resp_text r)))
       \<and> ((\<forall>j. resp_json r = Inr j \<longrightarrow> (\<exists>kvs. j = JObj kvs))
            \<longrightarrow> (\<exists>result. dispatch_result r = Inr result))
       \<and> (\<forall>s. dispatch_result r \<noteq> Inl (HTTPStatusError s))
       \<and> (get_webhook_url L w (sm_webhook_name p) = Inr (Some u) \<and> u \<noteq> []
            \<and> post \<lparr>req_url = u,
                     req_json = payload_of (Some (sm_content p)) (sm_username p) (sm_avatar_url p) None\<rparr>
                = Inr r
            \<and> sm_response_format p = MARKDOWN \<and> dispatch_result r = Inr result
            \<longrightarrow> fst (discord_send_message L post p w)
                  = ascii ''Error: Failed to send message. '' @ py_str L (result_error result))
       \<and> handle_error (HTTPStatusError 400)
           = ascii ''Error: Bad request. Check that the message content is valid and within Discord's limits.''
       \<and> handle_error (HTTPStatusError 401)
           = ascii ''Error: Unauthorized. The webhook URL may be invalid or expired.''
       \<and> handle_error (HTTPStatusError 403)
           = ascii ''Error: Forbidden. The webhook may have been deleted or you don't have permission.''
       \<and> handle_error (HTTPStatusError 404)
           = ascii ''Error: Webhook not found. The webhook URL may be invalid or deleted.''
       \<and> handle_error (HTTPStatusError 429)
           = ascii ''Error: Rate limited. Too many requests. Please wait before sending more messages.''
       \<and> (s \<noteq> 400 \<and> s \<noteq> 401 \<and> s \<noteq> 403 \<and> s \<noteq> 404 \<and> s \<noteq> 429
            \<longrightarrow> handle_error (HTTPStatusError s) = ascii ''Error: Discord API returned status '' @ str_int s)
       \<and> sublist (ascii ''Rate limited'') (handle_error (HTTPStatusError 429))
       \<and> sublist (ascii ''Webhook not found'') (handle_error (HTTPStatusError 404))"
proof -
  have 1: "\<forall>result. dispatch_result r = Inr result \<longrightarrow>
            \<not> result_success result
            \<and> result_error result
                = (case resp_json r of
                     Inr (JObj kvs) \<Rightarrow> dict_get_default kvs (ascii ''message'') (JStr (resp_text r))
                   | _ \<Rightarrow> JStr (resp_text r))"
    using dispatch_result_failure [OF assms] by blast
  have 2: "(\<forall>j. resp_json r = Inr j \<longrightarrow> (\<exists>kvs. j = JObj kvs))
            \<longrightarrow> (\<exists>result. dispatch_result r = Inr result)"
    using dispatch_result_failure_ex [OF assms] by blast
  have 3: "\<forall>s. dispatch_result r \<noteq> Inl (HTTPStatusError s)"
    by (simp add: dispatch_result_no_HTTPStatusError)
  have 4: "get_webhook_url L w (sm_webhook_name p) = Inr (Some u) \<and> u \<noteq> []
            \<and> post \<lparr>req_url = u,
                     req_json = payload_of (Some (sm_content p)) (sm_username p) (sm_avatar_url p) None\<rparr>
                = Inr r
            \<and> sm_response_format p = MARKDOWN \<and> dispatch_result r = Inr result
            \<longrightarrow> fst (discord_send_message L post p w)
                  = ascii ''Error: Failed to send message. '' @ py_str L (result_error result)"
    using discord_send_message_failure [of L w p u post r result] dispatch_result_failure [OF assms]
    by blast
  have 5: "s \<noteq> 400 \<and> s \<noteq> 401 \<and> s \<noteq> 403 \<and> s \<noteq> 404 \<and> s \<noteq> 429
            \<longrightarrow> handle_error (HTTPStatusError s) = ascii ''Error: Discord API returned status '' @ str_int s"
    by simp
  show ?thesis
    using 1 2 3 4 5 handle_error_429_Rate_limited handle_error_404_Webhook_not_found
    by simp
qed

lemma get_releases:
  "get_webhook_url example_pylib releases_world (ascii ''releases'') = Inr (Some example_url)"
  by (simp add: get_webhook_url_def load_webhooks_def releases_world_def dict_get_def
        dict_get_default_def lower_def is_latin1_def latin1_lower_def ascii_def)

lemma example_url_nonempty: "example_url \<noteq> []"
  by (simp add: example_url_def ascii_def)

text \<open>
  The theorem at a 429 response whose body is \<open>{"message": "You are being rate limited."}\<close>,
  sent to the configured webhook \<open>releases\<close>.
\<close>

theorem dispatch_failure_report_witness:
  "fst (discord_send_message example_pylib
         (\<lambda>req. Inr \<lparr>status_code = 429,
                     resp_text = dumps (JObj [(ascii ''message'', JStr (ascii ''You are being rate limited.''))]),
                     resp_json = Inr (JObj [(ascii ''message'', JStr (ascii ''You are being rate limited.''))])\<rparr>)
         \<lparr>sm_webhook_name = ascii ''releases'', sm_content = ascii ''hello'', sm_username = None,
          sm_avatar_url = None, sm_response_format = MARKDOWN\<rparr>
         releases_world)
   = ascii ''Error: Failed to send message. '' @ ascii ''You are being rate limited.''"
proof -
  let ?body = "JObj [(ascii ''message'', JStr (ascii ''You are being rate limited.''))]"
  let ?r = "\<lparr>status_code = 429, resp_text = dumps ?body, resp_json = Inr ?body\<rparr>"
  let ?p = "\<lparr>sm_webhook_name = ascii ''releases'', sm_content = ascii ''hello'', sm_username = None,
          sm_avatar_url = None, sm_response_format = MARKDOWN\<rparr>"
  have s: "status_code ?r \<noteq> 204" "status_code ?r \<noteq> 200" by simp_all
  have j: "\<forall>j. resp_json ?r = Inr j \<longrightarrow> (\<exists>kvs. j = JObj kvs)" by simp
  note t = dispatch_failure_report [OF s, of example_pylib releases_world ?p example_url "\<lambda>req. Inr ?r"]
  from t j obtain result where res: "dispatch_result ?r = Inr result" by blast
  with t have e: "result_error result = JStr (ascii ''You are being rate limited.'')"
    by (simp add: dict_get_default_def)
  from t res get_releases example_url_nonempty
  have "fst (discord_send_message example_pylib (\<lambda>req. Inr ?r) ?p releases_world)
        = ascii ''Error: Failed to send message. '' @ py_str example_pylib (result_error result)"
    by simp
  then show ?thesis by (simp add: e)
qed

text \<open>
  Claim C2 as stated fails: for a 404 response with the body
  \<open>{"message": "Unknown Webhook", "code": 10015}\<close> send-message answers
  \<open>Error: Failed to send message. Unknown Webhook\<close>, which is not the table's message for
  404 and does not contain \<open>Webhook not found\<close>.
\<close>

theorem dispatch_failure_counterexample:
  "fst (discord_send_message example_pylib
         (\<lambda>req. Inr \<lparr>status_code = 404,
                     resp_text = dumps (JObj [(ascii ''message'', JStr (ascii ''Unknown Webhook'')),
                                              (ascii ''code'', JInt 10015)]),
                     resp_json = Inr (JObj [(ascii ''message'', JStr (ascii ''Unknown Webhook'')),
                                            (ascii ''code'', JInt 10015)])\<rparr>)
         \<lparr>sm_webhook_name = ascii ''releases'', sm_content = ascii ''hello'', sm_username = None,
          sm_avatar_url = None, sm_response_format = MARKDOWN\<rparr>
         releases_world)
   = ascii ''Error: Failed to send message. Unknown Webhook''
   \<and> \<not> sublist (ascii ''Webhook not found'') (ascii ''Error: Failed to send message. Unknown Webhook'')
   \<and> ascii ''Error: Failed to send message. Unknown Webhook'' \<noteq> handle_error (HTTPStatusError 404)"
proof -
  have a: "\<not> sublist (ascii ''Webhook not found'') (ascii ''Error: Failed to send message. Unknown Webhook'')"
    by (simp add: ascii_def sublist_code)
  have b: "ascii ''Error: Failed to send message. Unknown Webhook'' \<noteq> handle_error (HTTPStatusError 404)"
    by (simp add: ascii_def)
  have c: "fst (discord_send_message example_pylib
         (\<lambda>req. Inr \<lparr>status_code = 404,
                     resp_text = dumps (JObj [(ascii ''message'', JStr (ascii ''Unknown Webhook'')),
                                              (ascii ''code'', JInt 10015)]),
                     resp_json = Inr (JObj [(ascii ''message'', JStr (ascii ''Unknown Webhook'')),
                                            (ascii ''code'', JInt 10015)])\<rparr>)
         \<lparr>sm_webhook_name = ascii ''releases'', sm_content = ascii ''hello'', sm_username = None,
          sm_avatar_url = None, sm_response_format = MARKDOWN\<rparr>
         releases_world)
   = ascii ''Error: Failed to send message. Unknown Webhook''"
    by (simp add: discord_send_message_def get_releases example_url_nonempty send_webhook_message_def
          Let_def dispatch_result_def result_success_def result_error_def dict_get_default_def;
        simp add: ascii_def)
  from a b c show ?thesis by blast
qed

section \<open>Announcements and the message limit\<close>

lemma send_webhook_message_posts:
  "posts (snd (send_webhook_message post u content username avatar_url embeds w))
   = posts w @ [\<lparr>req_url = u, req_json = payload_of content username avatar_url embeds\<rparr>]"
  by (simp add: send_webhook_message_def Let_def split: sum.splits)

lemma too_long_no_dispatch:
  assumes "\<not> sa_use_embed p"
    "length (format_announcement (sa_version p) (sa_headline p) (sa_changes p) (sa_download_url p)
               (sa_style p) (sa_beta_warning p)) > DISCORD_MESSAGE_LIMIT"
  shows "snd (discord_send_announcement L post utcnow p w) = w"
  using assms
  by (simp add: discord_send_announcement_def Let_def split: sum.splits)

lemma too_long_error:
  assumes "\<not> sa_use_embed p"
    "length (format_announcement (sa_version p) (sa_headline p) (sa_changes p) (sa_download_url p)
               (sa_style p) (sa_beta_warning p)) > DISCORD_MESSAGE_LIMIT"
    "get_webhook_url L w (sa_webhook_name p) = Inr (Some u)" "u \<noteq> []"
  shows "fst (discord_send_announcement L post utcnow p w)
         = ascii ''Error: Announcement is too long (''
           @ str_int (int (length (format_announcement (sa_version p) (sa_headline p) (sa_changes p)
                                     (sa_download_url p) (sa_style p) (sa_beta_warning p))))
           @ ascii '' chars). Discord limit is '' @ str_int 2000
           @ ascii '' characters. Reduce the number of changes or shorten descriptions.''"
  using assms
  by (simp add: discord_send_announcement_def Let_def DISCORD_MESSAGE_LIMIT_def)

lemma embed_dispatched:
  assumes "sa_use_embed p" "get_webhook_url L w (sa_webhook_name p) = Inr (Some u)" "u \<noteq> []"
  shows "posts (snd (discord_send_announcement L post utcnow p w))
         = posts w @ [\<lparr>req_url = u,
                        req_json = payload_of None (sa_username p) None
                          (Some [JObj (build_announcement_embed L utcnow (sa_version p) (sa_headline p)
                                   (sa_changes p) (sa_download_url p) (sa_style p) (sa_beta_warning p)
                                   (sa_embed_color p)
                                   (if truthy (sa_thumbnail_url p) then sa_thumbnail_url p
                                    else Some LIVING_LANDS_LOGO_URL)
                                   (sa_footer_text p))])\<rparr>]"
proof -
  let ?e = "build_announcement_embed L utcnow (sa_version p) (sa_headline p)
                                   (sa_changes p) (sa_download_url p) (sa_style p) (sa_beta_warning p)
                                   (sa_embed_color p)
                                   (if truthy (sa_thumbnail_url p) then sa_thumbnail_url p
                                    else Some LIVING_LANDS_LOGO_URL)
                                   (sa_footer_text p)"
  let ?s = "send_webhook_message post u None (sa_username p) None (Some [JObj ?e]) w"
  have "snd (discord_send_announcement L post utcnow p w) = snd ?s"
    using assms
    by (cases ?s; cases "fst ?s")
       (simp_all add: discord_send_announcement_def Let_def split: sum.splits)
  then show ?thesis by (simp add: send_webhook_message_posts)
qed

lemma long_plain_length:
  "length (format_announcement (sa_version long_plain_announcement) (sa_headline long_plain_announcement)
             (sa_changes long_plain_announcement) (sa_download_url long_plain_announcement)
             (sa_style long_plain_announcement) (sa_beta_warning long_plain_announcement)) = 2028"
  by (simp add: long_plain_announcement_def format_announcement_def announcement_lines_def
        change_line_def startswith_def ARROW_def ascii_def NL_def)

lemma str_int_2028: "str_int 2028 = ascii ''2028''"
  by (simp add: str_int_def str_nat.simps ascii_def)

lemma str_int_2000: "str_int 2000 = ascii ''2000''"
  by (simp add: str_int_def str_nat.simps ascii_def)


text \<open>
  Claim C6, as amended. For every send-announcement call with \<open>use_embed = false\<close> whose
  formatted plain-text announcement exceeds 2000 characters no HTTP request is attempted:
  the call leaves the outside world as it was, with no request added to \<open>posts\<close>. When
  the webhook name is configured the answer is the length error. (When it is not, the
  lookup fails first and the answer is the not-found error.)
\<close>

theorem too_long_rejected_before_dispatch:
  assumes "\<not> sa_use_embed p"
    "length (format_announcement (sa_version p) (sa_headline p) (sa_changes p) (sa_download_url p)
               (sa_style p) (sa_beta_warning p)) > DISCORD_MESSAGE_LIMIT"
  shows "DISCORD_MESSAGE_LIMIT = 2000
       \<and> snd (discord_send_announcement L post utcnow p w) = w
       \<and> posts (snd (discord_send_announcement L post utcnow p w)) = posts w
       \<and> (get_webhook_url L w (sa_webhook_name p) = Inr (Some u) \<and> u \<noteq> [] \<longrightarrow>
            fst (discord_send_announcement L post utcnow p w)
            = ascii ''Error: Announcement is too long (''
              @ str_int (int (length (format_announcement (sa_version p) (sa_headline p) (sa_changes p)
                                        (sa_download_url p) (sa_style p) (sa_beta_warning p))))
              @ ascii '' chars). Discord limit is '' @ str_int 2000
              @ ascii '' characters. Reduce the number of changes or shorten descriptions.'')"
  using too_long_no_dispatch [OF assms, of L post utcnow w] too_long_error [OF assms, of L w u post utcnow]
  by (simp add: DISCORD_MESSAGE_LIMIT_def)

text \<open>
  The theorem for an announcement of 2028 characters sent to the configured webhook
  \<open>releases\<close>.
\<close>

theorem too_long_rejected_before_dispatch_witness:
  "fst (discord_send_announcement example_pylib always_204 (ascii ''2024-01-01T00:00:00'')
          long_plain_announcement releases_world)
   = ascii ''Error: Announcement is too long (2028 chars). Discord limit is 2000 characters. Reduce the number of changes or shorten descriptions.''
   \<and> snd (discord_send_announcement example_pylib always_204 (ascii ''2024-01-01T00:00:00'')
          long_plain_announcement releases_world)
     = releases_world"
proof -
  let ?p = long_plain_announcement
  have e: "\<not> sa_use_embed ?p" by (simp add: long_plain_announcement_def)
  have l: "length (format_announcement (sa_version ?p) (sa_headline ?p) (sa_changes ?p)
                     (sa_download_url ?p) (sa_style ?p) (sa_beta_warning ?p)) > DISCORD_MESSAGE_LIMIT"
    by (simp add: long_plain_length DISCORD_MESSAGE_LIMIT_def)
  have g: "get_webhook_url example_pylib releases_world (sa_webhook_name ?p) = Inr (Some example_url)"
    using get_releases by (simp add: long_plain_announcement_def)
  from too_long_rejected_before_dispatch [OF e l, of example_pylib always_204
         "ascii ''2024-01-01T00:00:00''" releases_world example_url] g example_url_nonempty
  have "snd (discord_send_announcement example_pylib always_204 (ascii ''2024-01-01T00:00:00'')
               ?p releases_world) = releases_world"
    and "fst (discord_send_announcement example_pylib always_204 (ascii ''2024-01-01T00:00:00'')
               ?p releases_world)
         = ascii ''Error: Announcement is too long ('' @ str_int 2028
           @ ascii '' chars). Discord limit is '' @ str_int 2000
           @ ascii '' characters. Reduce the number of changes or shorten descriptions.''"
    by (simp_all add: long_plain_length)
  then show ?thesis
    by (simp add: str_int_2028 str_int_2000; simp add: ascii_def)
qed

text \<open>
  Claim C6 as stated fails: with no webhook configured, the same announcement of 2028
  characters is answered with the not-found error, not with a length error.
\<close>

theorem too_long_counterexample:
  "\<not> sa_use_embed long_plain_announcement
   \<and> length (format_announcement (sa_version long_plain_announcement)
               (sa_headline long_plain_announcement) (sa_changes long_plain_announcement)
               (sa_download_url long_plain_announcement) (sa_style long_plain_announcement)
               (sa_beta_warning long_plain_announcement)) = 2028
   \<and> discord_send_announcement example_pylib always_204 (ascii ''2024-01-01T00:00:00'')
          long_plain_announcement empty_world
     = (ascii ''Error: Webhook '' @ APOS @ ascii ''releases'' @ APOS
        @ ascii '' not found. No webhooks configured. Use discord_add_webhook first.'', empty_world)"
proof -
  have g: "get_webhook_url example_pylib empty_world (ascii ''releases'') = Inr None"
    by (simp add: get_webhook_url_def load_webhooks_def empty_world_def dict_get_def)
  have n: "webhook_not_found (ascii ''releases'') empty_world
           = ascii ''Error: Webhook '' @ APOS @ ascii ''releases'' @ APOS
             @ ascii '' not found. No webhooks configured. Use discord_add_webhook first.''"
    by (simp add: webhook_not_found_def load_webhooks_def empty_world_def available_webhooks_def)
  have d: "discord_send_announcement example_pylib always_204 (ascii ''2024-01-01T00:00:00'')
          long_plain_announcement empty_world
     = (webhook_not_found (ascii ''releases'') empty_world, empty_world)"
    by (simp add: discord_send_announcement_def long_plain_announcement_def g)
  show ?thesis
    using long_plain_length d n by (simp add: long_plain_announcement_def)
qed

text \<open>
  Claim C10. For every send-announcement call with \<open>use_embed = true\<close> whose webhook name
  is configured (the lookup gives a non-empty URL), exactly one request is sent, to that
  URL and carrying the built card, whatever the size of the card: no length check stands
  on the embed path.
\<close>

theorem embed_always_dispatched:
  assumes "sa_use_embed p" "get_webhook_url L w (sa_webhook_name p) = Inr (Some u)" "u \<noteq> []"
  shows "posts (snd (discord_send_announcement L post utcnow p w))
         = posts w @ [\<lparr>req_url = u,
                        req_json = payload_of None (sa_username p) None
                          (Some [JObj (build_announcement_embed L utcnow (sa_version p) (sa_headline p)
                                   (sa_changes p) (sa_download_url p) (sa_style p) (sa_beta_warning p)
                                   (sa_embed_color p)
                                   (if truthy (sa_thumbnail_url p) then sa_thumbnail_url p
                                    else Some LIVING_LANDS_LOGO_URL)
                                   (sa_footer_text p))])\<rparr>]"
  using assms by (rule embed_dispatched)

text \<open>The theorem for a card whose change has 2001 characters.\<close>

theorem embed_always_dispatched_witness:
  "length (hd (sa_changes long_embed_announcement)) = 2001
   \<and> map req_url (posts (snd (discord_send_announcement example_pylib always_204
                               (ascii ''2024-01-01T00:00:00'') long_embed_announcement releases_world)))
     = [example_url]"
proof -
  let ?p = long_embed_announcement
  have e: "sa_use_embed ?p" by (simp add: long_embed_announcement_def)
  have g: "get_webhook_url example_pylib releases_world (sa_webhook_name ?p) = Inr (Some example_url)"
    using get_releases by (simp add: long_embed_announcement_def long_plain_announcement_def)
  have p0: "posts releases_world = []" by (simp add: releases_world_def)
  have c: "length (hd (sa_changes ?p)) = 2001"
    by (simp add: long_embed_announcement_def long_plain_announcement_def)
  from embed_always_dispatched [OF e g example_url_nonempty, of always_204 "ascii ''2024-01-01T00:00:00''"]
  have "map req_url (posts (snd (discord_send_announcement example_pylib always_204
                               (ascii ''2024-01-01T00:00:00'') ?p releases_world))) = [example_url]"
    by (simp add: p0)
  with c show ?thesis by simp
qed

section \<open>Adding, looking up and removing a webhook\<close>

lemma str_replace_single:
  "str_replace [a] [b] s = map (\<lambda>c. if c = a then b else c) s"
proof (induction s)
  case Nil
  then show ?case by (simp add: str_replace_Nil)
next
  case (Cons c s)
  show ?case
  proof (cases "c = a")
    case True
    then have "str_replace [a] [b] (c # s) = [b] @ str_replace [a] [b] (drop (length [a]) (c # s))"
      by (intro str_replace_prefix) simp_all
    with Cons True show ?thesis by simp
  next
    case False
    then have "str_replace [a] [b] (c # s) = c # str_replace [a] [b] s"
      by (intro str_replace_Cons) simp_all
    with Cons False show ?thesis by simp
  qed
qed

lemma set_strip_whitespace: "set (strip_whitespace L s) \<subseteq> set s"
  by (auto simp: strip_whitespace_def dest!: set_dropWhileD)

lemma latin1_strip: "list_all is_latin1 s \<Longrightarrow> list_all is_latin1 (strip_whitespace L s)"
  using set_strip_whitespace [of L s] by (auto simp: list_all_iff)

lemma latin1_lower_latin1: "is_latin1 c \<Longrightarrow> is_latin1 (latin1_lower c)"
  by (auto simp: is_latin1_def latin1_lower_def)

lemma latin1_lower_idem: "latin1_lower (latin1_lower c) = latin1_lower c"
  by (auto simp: latin1_lower_def)

lemma latin1_lower_space: "latin1_lower c = 32 \<longleftrightarrow> c = 32" "32 = latin1_lower c \<longleftrightarrow> c = 32"
  by (auto simp: latin1_lower_def)

lemma latin1_lower_normal:
  "latin1_lower (if latin1_lower c = 32 then 95 else latin1_lower c)
   = (if latin1_lower c = 32 then 95 else latin1_lower c)"
  by (simp add: latin1_lower_idem) (simp add: latin1_lower_def)

lemma is_latin1_95: "is_latin1 95"
  by (simp add: is_latin1_def)

lemma lower_latin1: "list_all is_latin1 s \<Longrightarrow> lower L s = map latin1_lower s"
  by (simp add: lower_def)

lemma ascii_space: "ascii '' '' = [32]"
  by (simp add: ascii_def)

text \<open>The normalized form of a Latin-1 name is a fixed point of \<open>lower\<close>.\<close>

lemma lower_normalized:
  assumes "list_all is_latin1 s"
  shows "lower L (str_replace (ascii '' '') (ascii ''_'') (lower L s))
         = str_replace (ascii '' '') (ascii ''_'') (lower L s)"
proof -
  let ?k = "map (\<lambda>c. if c = 32 then 95 else c) (map latin1_lower s)"
  have k: "str_replace (ascii '' '') (ascii ''_'') (lower L s) = ?k"
    by (simp add: lower_latin1 [OF assms] ascii_space ascii_underscore str_replace_single)
  have "list_all is_latin1 ?k"
    using assms by (auto simp: list_all_iff latin1_lower_latin1 is_latin1_95)
  then have "lower L ?k = map latin1_lower ?k" by (rule lower_latin1)
  also have "\<dots> = ?k"
    by (simp add: latin1_lower_normal)
  finally show ?thesis by (simp add: k)
qed

lemma normalized_no_space:
  assumes "list_all is_latin1 s" "32 \<notin> set s"
  shows "str_replace (ascii '' '') (ascii ''_'') (lower L s) = lower L s"
proof -
  have "32 \<notin> set (map latin1_lower s)"
    using assms(2) by (auto simp: latin1_lower_space image_iff)
  then have "map (\<lambda>c. if c = 32 then 95 else c) (map latin1_lower s) = map latin1_lower s"
    by (induction s) auto
  then show ?thesis
    by (simp add: lower_latin1 [OF assms(1)] ascii_space ascii_underscore str_replace_single)
qed

lemma load_after_save:
  "save_webhooks d w = Inr w' \<Longrightarrow> load_webhooks w' = Inr d"
  by (auto simp: save_webhooks_def load_webhooks_def split: option.splits)

lemma load_total:
  "\<forall>m. webhooks_file w \<noteq> Undecodable m \<Longrightarrow> \<exists>d. load_webhooks w = Inr d"
  by (cases "webhooks_file w") (auto simp: load_webhooks_def)

lemma add_then_get:
  assumes "\<forall>m. webhooks_file w \<noteq> Undecodable m" "write_error w = None"
    "lower L (aw_name params) = aw_name params"
  shows "get_webhook_url L (snd (discord_add_webhook now params w)) (aw_name params)
         = Inr (Some (aw_url params))"
proof -
  from load_total [OF assms(1)] obtain d where d: "load_webhooks w = Inr d" by blast
  let ?e = "[(ascii ''url'', Some (aw_url params)), (ascii ''description'', aw_description params),
             (ascii ''added_at'', Some now)]"
  let ?d = "AList.update (aw_name params) ?e d"
  have s: "save_webhooks ?d w = Inr (w\<lparr>webhooks_file := Document ?d\<rparr>)"
    using assms(2) by (simp add: save_webhooks_def)
  have "snd (discord_add_webhook now params w) = w\<lparr>webhooks_file := Document ?d\<rparr>"
    by (simp add: discord_add_webhook_def d s Let_def)
  moreover have "load_webhooks (w\<lparr>webhooks_file := Document ?d\<rparr>) = Inr ?d"
    using s by (rule load_after_save)
  ultimately show ?thesis
    by (simp add: get_webhook_url_def assms(3) dict_get_def update_conv' dict_get_default_def)
qed

lemma remove_then_get:
  assumes "\<forall>m. webhooks_file w \<noteq> Undecodable m" "write_error w = None"
  shows "get_webhook_url L (snd (discord_remove_webhook L nm w)) nm = Inr None"
proof -
  from load_total [OF assms(1)] obtain d where d: "load_webhooks w = Inr d" by blast
  show ?thesis
  proof (cases "map_of d (lower L nm)")
    case None
    then have "snd (discord_remove_webhook L nm w) = w"
      by (simp add: discord_remove_webhook_def d Let_def)
    then show ?thesis by (simp add: get_webhook_url_def d dict_get_def None)
  next
    case (Some e)
    let ?d = "AList.delete (lower L nm) d"
    have s: "save_webhooks ?d w = Inr (w\<lparr>webhooks_file := Document ?d\<rparr>)"
      using assms(2) by (simp add: save_webhooks_def)
    have "snd (discord_remove_webhook L nm w) = w\<lparr>webhooks_file := Document ?d\<rparr>"
      by (simp add: discord_remove_webhook_def d Some s Let_def)
    moreover have "load_webhooks (w\<lparr>webhooks_file := Document ?d\<rparr>) = Inr ?d"
      using s by (rule load_after_save)
    ultimately show ?thesis
      by (simp add: get_webhook_url_def dict_get_def delete_conv')
  qed
qed

lemma validate_fields:
  assumes "AddWebhookInput_validate L raw_name raw_url raw_description = Inr params"
  shows "name_field L raw_name = Inr (aw_name params)" "url_field L raw_url = Inr (aw_url params)"
  using assms
  by (auto simp: AddWebhookInput_validate_def split: sum.splits)

lemma name_field_normal:
  "name_field L raw = Inr n \<Longrightarrow>
   n = str_replace (ascii '' '') (ascii ''_'') (lower L (strip_whitespace L raw))"
  by (auto simp: name_field_def str_field_def validate_name_def Let_def split: sum.splits if_splits)

lemma url_field_stripped: "url_field L raw = Inr v \<Longrightarrow> v = strip_whitespace L raw"
  by (auto simp: url_field_def str_field_def validate_webhook_url_def Let_def split: sum.splits if_splits)

text \<open>
  Claim C1, as amended. Let the registry file be readable as text and writable. For every
  name valid for add-webhook (here: any accepted name of Latin-1 characters, which covers
  letters, digits, underscore and space in any case), add-webhook stores the webhook
  under the normalized name (stripped, lowercase, spaces turned into underscores), and a
  lookup by that normalized name afterwards returns the url that was stored. A lookup by
  the name as it was given returns the url when the name contains no space. And after
  remove-webhook(name) a lookup by that name returns absent.
\<close>

theorem add_get_remove_get:
  assumes "\<forall>m. webhooks_file w \<noteq> Undecodable m" "write_error w = None"
  shows "(list_all is_latin1 raw_name
          \<and> AddWebhookInput_validate L raw_name raw_url raw_description = Inr params
          \<longrightarrow> aw_name params = str_replace (ascii '' '') (ascii ''_'') (lower L (strip_whitespace L raw_name))
              \<and> aw_url params = strip_whitespace L raw_url
              \<and> get_webhook_url L
                    (snd (call_discord_add_webhook L now raw_name raw_url raw_description w))
                    (aw_name params)
                  = Inr (Some (aw_url params))
              \<and> (32 \<notin> set raw_name \<and> strip_whitespace L raw_name = raw_name
                   \<longrightarrow> get_webhook_url L
                          (snd (call_discord_add_webhook L now raw_name raw_url raw_description w))
                          raw_name
                        = Inr (Some (aw_url params))))
       \<and> get_webhook_url L (snd (discord_remove_webhook L nm w)) nm = Inr None"
proof -
  have A: "aw_name params = str_replace (ascii '' '') (ascii ''_'') (lower L (strip_whitespace L raw_name))
              \<and> aw_url params = strip_whitespace L raw_url
              \<and> get_webhook_url L
                    (snd (call_discord_add_webhook L now raw_name raw_url raw_description w))
                    (aw_name params)
                  = Inr (Some (aw_url params))
              \<and> (32 \<notin> set raw_name \<and> strip_whitespace L raw_name = raw_name
                   \<longrightarrow> get_webhook_url L
                          (snd (call_discord_add_webhook L now raw_name raw_url raw_description w))
                          raw_name
                        = Inr (Some (aw_url params)))"
    if l: "list_all is_latin1 raw_name"
      and v: "AddWebhookInput_validate L raw_name raw_url raw_description = Inr params"
  proof -
    let ?s = "strip_whitespace L raw_name"
    let ?w' = "snd (call_discord_add_webhook L now raw_name raw_url raw_description w)"
    have ls: "list_all is_latin1 ?s" using l by (rule latin1_strip)
    have n: "aw_name params = str_replace (ascii '' '') (ascii ''_'') (lower L ?s)"
      using validate_fields(1) [OF v] by (rule name_field_normal)
    have u: "aw_url params = strip_whitespace L raw_url"
      using validate_fields(2) [OF v] by (rule url_field_stripped)
    have fp: "lower L (aw_name params) = aw_name params"
      unfolding n using ls by (rule lower_normalized)
    have w': "?w' = snd (discord_add_webhook now params w)"
      by (simp add: call_discord_add_webhook_def v split: prod.splits)
    have g: "get_webhook_url L ?w' (aw_name params) = Inr (Some (aw_url params))"
      unfolding w' using assms fp by (rule add_then_get)
    have same: "get_webhook_url L ?w' raw_name = Inr (Some (aw_url params))"
      if "32 \<notin> set raw_name" "strip_whitespace L raw_name = raw_name"
    proof -
      have "aw_name params = lower L raw_name"
        using n normalized_no_space [OF l that(1), of L] by (simp add: that(2))
      with fp have "lower L (aw_name params) = lower L raw_name" by simp
      then have "get_webhook_url L ?w' raw_name = get_webhook_url L ?w' (aw_name params)"
        by (simp only: get_webhook_url_def)
      with g show ?thesis by simp
    qed
    from n u g same show ?thesis by blast
  qed
  have B: "get_webhook_url L (snd (discord_remove_webhook L nm w)) nm = Inr None"
    using assms by (rule remove_then_get)
  from A B show ?thesis by blast
qed

lemma url_field_example: "url_field example_pylib example_url = Inr example_url"
proof -
  have su: "strip_whitespace example_pylib example_url = example_url"
    by (rule strip_noop) (simp_all add: example_url_def ascii_def is_whitespace_def example_pylib_def)
  have lu: "length example_url = 50" by (simp add: example_url_def ascii_def)
  have pu: "startswith example_url WEBHOOK_PREFIX_1"
    by (simp add: startswith_def WEBHOOK_PREFIX_1_def example_url_def ascii_def)
  show ?thesis
    by (simp add: url_field_def str_field_def Let_def su lu validate_webhook_url_def pu)
qed

lemma validate_Releases:
  "AddWebhookInput_validate example_pylib (ascii ''Releases'') example_url None
   = Inr \<lparr>aw_name = ascii ''releases'', aw_url = example_url, aw_description = None\<rparr>"
proof -
  have s: "strip_whitespace example_pylib (ascii ''Releases'') = ascii ''Releases''"
    by (rule strip_noop) (simp_all add: ascii_def is_whitespace_def example_pylib_def)
  have l: "lower example_pylib (ascii ''Releases'') = ascii ''releases''"
    by (simp add: lower_def ascii_def is_latin1_def latin1_lower_def)
  have r1: "str_replace (ascii '' '') (ascii ''_'') (ascii ''releases'') = ascii ''releases''"
    by (simp add: ascii_def str_replace_Cons str_replace_Nil)
  have r2: "str_replace (ascii ''_'') [] (ascii ''releases'') = ascii ''releases''"
    by (simp add: ascii_def str_replace_Cons str_replace_Nil)
  have a: "isalnum example_pylib (ascii ''releases'')"
    by (simp add: ascii_def isalnum_def isalnum_cp_def is_latin1_def latin1_isalnum_def)
  have len: "length (ascii ''Releases'') = 8" "ascii ''Releases'' \<noteq> []" by (simp_all add: ascii_def)
  have nf: "name_field example_pylib (ascii ''Releases'') = Inr (ascii ''releases'')"
    using len by (simp add: name_field_def str_field_def Let_def s validate_name_def l r1 r2 a)
  show ?thesis
    by (simp add: AddWebhookInput_validate_def nf url_field_example description_field_def)
qed

lemma validate_my_hook:
  "AddWebhookInput_validate example_pylib (ascii ''my hook'') example_url None
   = Inr \<lparr>aw_name = ascii ''my_hook'', aw_url = example_url, aw_description = None\<rparr>"
proof -
  have s: "strip_whitespace example_pylib (ascii ''my hook'') = ascii ''my hook''"
    by (rule strip_noop) (simp_all add: ascii_def is_whitespace_def example_pylib_def)
  have l: "lower example_pylib (ascii ''my hook'') = ascii ''my hook''"
    by (simp add: lower_def ascii_def is_latin1_def latin1_lower_def)
  have r1: "str_replace (ascii '' '') (ascii ''_'') (ascii ''my hook'') = ascii ''my_hook''"
    by (simp add: ascii_def str_replace_prefix str_replace_Cons str_replace_Nil)
  have r2: "str_replace (ascii ''_'') [] (ascii ''my_hook'') = ascii ''myhook''"
    by (simp add: ascii_def str_replace_prefix str_replace_Cons str_replace_Nil)
  have a: "isalnum example_pylib (ascii ''myhook'')"
    by (simp add: ascii_def isalnum_def isalnum_cp_def is_latin1_def latin1_isalnum_def)
  have len: "length (ascii ''my hook'') = 7" "ascii ''my hook'' \<noteq> []" by (simp_all add: ascii_def)
  have nf: "name_field example_pylib (ascii ''my hook'') = Inr (ascii ''my_hook'')"
    using len by (simp add: name_field_def str_field_def Let_def s validate_name_def l r1 r2 a)
  show ?thesis
    by (simp add: AddWebhookInput_validate_def nf url_field_example description_field_def)
qed

text \<open>
  The theorem for the name \<open>Releases\<close>: added to an empty registry and looked up, and
  removed from a registry that holds \<open>releases\<close> and looked up.
\<close>

theorem add_get_remove_get_witness:
  "get_webhook_url example_pylib
     (snd (call_discord_add_webhook example_pylib (ascii ''2024-01-01T00:00:00'') (ascii ''Releases'')
             example_url None empty_world))
     (ascii ''Releases'')
   = Inr (Some example_url)
   \<and> get_webhook_url example_pylib
       (snd (discord_remove_webhook example_pylib (ascii ''Releases'') releases_world))
       (ascii ''Releases'')
     = Inr None"
proof -
  have e: "\<forall>m. webhooks_file empty_world \<noteq> Undecodable m" "write_error empty_world = None"
    by (simp_all add: empty_world_def)
  have r: "\<forall>m. webhooks_file releases_world \<noteq> Undecodable m" "write_error releases_world = None"
    by (simp_all add: releases_world_def)
  have l: "list_all is_latin1 (ascii ''Releases'')" "32 \<notin> set (ascii ''Releases'')"
    by (simp_all add: ascii_def is_latin1_def)
  have s: "strip_whitespace example_pylib (ascii ''Releases'') = ascii ''Releases''"
    by (rule strip_noop) (simp_all add: ascii_def is_whitespace_def example_pylib_def)
  from add_get_remove_get [OF e, of "ascii ''Releases''" example_pylib example_url None
         "\<lparr>aw_name = ascii ''releases'', aw_url = example_url, aw_description = None\<rparr>"
         "ascii ''2024-01-01T00:00:00''"]
       l s validate_Releases
  have 1: "get_webhook_url example_pylib
     (snd (call_discord_add_webhook example_pylib (ascii ''2024-01-01T00:00:00'') (ascii ''Releases'')
             example_url None empty_world))
     (ascii ''Releases'') = Inr (Some example_url)"
    by simp
  from add_get_remove_get [OF r, of _ example_pylib _ _ _ _ "ascii ''Releases''"]
  have 2: "get_webhook_url example_pylib
       (snd (discord_remove_webhook example_pylib (ascii ''Releases'') releases_world))
       (ascii ''Releases'') = Inr None"
    by simp
  from 1 2 show ?thesis by simp
qed

text \<open>
  Claim C1 as stated fails for a name with a space: \<open>my hook\<close> is valid and is stored as
  \<open>my_hook\<close>, and the lookup, which lowercases the name but does not turn spaces into
  underscores, finds nothing under \<open>my hook\<close>.
\<close>

theorem add_get_counterexample:
  "AddWebhookInput_validate example_pylib (ascii ''my hook'') example_url None
     = Inr \<lparr>aw_name = ascii ''my_hook'', aw_url = example_url, aw_description = None\<rparr>
   \<and> webhooks_file (snd (call_discord_add_webhook example_pylib (ascii ''2024-01-01T00:00:00'')
                           (ascii ''my hook'') example_url None empty_world))
     = Document [(ascii ''my_hook'',
                  [(ascii ''url'', Some example_url), (ascii ''description'', None),
                   (ascii ''added_at'', Some (ascii ''2024-01-01T00:00:00''))])]
   \<and> get_webhook_url example_pylib
       (snd (call_discord_add_webhook example_pylib (ascii ''2024-01-01T00:00:00'') (ascii ''my hook'')
               example_url None empty_world))
       (ascii ''my hook'')
     = Inr None"
proof -
  let ?d = "[(ascii ''my_hook'',
                  [(ascii ''url'', Some example_url), (ascii ''description'', None),
                   (ascii ''added_at'', Some (ascii ''2024-01-01T00:00:00''))])]"
  have c: "snd (call_discord_add_webhook example_pylib (ascii ''2024-01-01T00:00:00'')
                           (ascii ''my hook'') example_url None empty_world)
           = empty_world\<lparr>webhooks_file := Document ?d\<rparr>"
    by (simp add: call_discord_add_webhook_def validate_my_hook discord_add_webhook_def
          load_webhooks_def empty_world_def save_webhooks_def Let_def)
  have l: "lower example_pylib (ascii ''my hook'') = ascii ''my hook''"
    by (simp add: lower_def ascii_def is_latin1_def latin1_lower_def)
  have g: "get_webhook_url example_pylib (empty_world\<lparr>webhooks_file := Document ?d\<rparr>) (ascii ''my hook'')
           = Inr None"
    by (simp add: get_webhook_url_def load_webhooks_def l dict_get_def) (simp add: ascii_def)
  show ?thesis
    unfolding c using validate_my_hook g by simp
qed

section \<open>What list-webhooks shows of a URL\<close>

lemma same_visible_url_hint:
  "same_visible_url v1 v2 \<Longrightarrow>
   (case v1 of None \<Rightarrow> None | Some u \<Rightarrow> Some (if length u > 8 then ascii ''...'' @ drop (length u - 8) u else u))
   = (case v2 of None \<Rightarrow> None | Some u \<Rightarrow> Some (if length u > 8 then ascii ''...'' @ drop (length u - 8) u else u))"
  by (cases v1; cases v2) (auto simp: last8_def)

lemma same_but_hidden_url_map_of:
  assumes "same_but_hidden_url e1 e2"
  shows "(k \<noteq> ascii ''url'' \<longrightarrow> map_of e1 k = map_of e2 k)
       \<and> rel_option same_visible_url (map_of e1 (ascii ''url'')) (map_of e2 (ascii ''url''))"
  using assms unfolding same_but_hidden_url_def
  by (induction e1 e2 rule: list_all2_induct) (auto split: if_splits)

lemma same_visible_url_refl: "same_visible_url v v"
  by (cases v) auto

lemma same_but_hidden_url_hint:
  assumes "same_but_hidden_url e1 e2"
  shows "url_hint e1 = url_hint e2"
proof -
  from same_but_hidden_url_map_of [OF assms, of "ascii ''url''"]
  have r: "rel_option same_visible_url (map_of e1 (ascii ''url'')) (map_of e2 (ascii ''url''))"
    by simp
  then have "same_visible_url (dict_get_default e1 (ascii ''url'') (Some []))
               (dict_get_default e2 (ascii ''url'') (Some []))"
    by (cases "map_of e1 (ascii ''url'')"; cases "map_of e2 (ascii ''url'')")
       (simp_all add: dict_get_default_def)
  from same_visible_url_hint [OF this] show ?thesis
    by (auto simp: url_hint_def split: option.splits)
qed

lemma same_but_hidden_url_get:
  assumes "same_but_hidden_url e1 e2" "k \<noteq> ascii ''url''"
  shows "dict_get_default e1 k d = dict_get_default e2 k d"
  using same_but_hidden_url_map_of [OF assms(1), of k] assms(2)
  by (simp add: dict_get_default_def)

lemma sanitize_hidden:
  assumes "registries_same_but_hidden_urls r1 r2"
  shows "sanitize r1 acc = sanitize r2 acc"
  using assms unfolding registries_same_but_hidden_urls_def
proof (induction r1 r2 arbitrary: acc rule: list_all2_induct)
  case Nil
  then show ?case by simp
next
  case (Cons x xs y ys)
  obtain n1 e1 n2 e2 where x: "x = (n1, e1)" and y: "y = (n2, e2)"
    by (cases x; cases y) auto
  from Cons.hyps(1) x y have n: "n1 = n2" and e: "same_but_hidden_url e1 e2" by simp_all
  have d: "dict_get_default e1 (ascii ''description'') None = dict_get_default e2 (ascii ''description'') None"
    using e by (rule same_but_hidden_url_get) (simp add: ascii_def)
  have a: "dict_get_default e1 (ascii ''added_at'') None = dict_get_default e2 (ascii ''added_at'') None"
    using e by (rule same_but_hidden_url_get) (simp add: ascii_def)
  show ?case
    unfolding x y
    by (simp add: same_but_hidden_url_hint [OF e] n d a Cons.IH split: sum.splits)
qed

lemma markdown_lines_hidden:
  assumes "registries_same_but_hidden_urls r1 r2"
  shows "markdown_lines r1 acc = markdown_lines r2 acc"
  using assms unfolding registries_same_but_hidden_urls_def
proof (induction r1 r2 arbitrary: acc rule: list_all2_induct)
  case Nil
  then show ?case by simp
next
  case (Cons x xs y ys)
  obtain n1 e1 n2 e2 where x: "x = (n1, e1)" and y: "y = (n2, e2)"
    by (cases x; cases y) auto
  from Cons.hyps(1) x y have n: "n1 = n2" and e: "same_but_hidden_url e1 e2" by simp_all
  have d: "dict_get_default e1 (ascii ''description'') (Some (ascii ''No description''))
           = dict_get_default e2 (ascii ''description'') (Some (ascii ''No description''))"
    using e by (rule same_but_hidden_url_get) (simp add: ascii_def)
  have a: "dict_get_default e1 (ascii ''added_at'') (Some (ascii ''Unknown''))
           = dict_get_default e2 (ascii ''added_at'') (Some (ascii ''Unknown''))"
    using e by (rule same_but_hidden_url_get) (simp add: ascii_def)
  show ?case
    unfolding x y
    by (simp add: same_but_hidden_url_hint [OF e] n d a Cons.IH Let_def split: sum.splits)
qed

text \<open>
  Claim C9, as amended. Two registries that differ only in the part of stored URLs before
  their last 8 characters, where the URLs concerned have more than 8 characters (as every
  URL that add-webhook accepts has), produce the same list-webhooks output, in the JSON and
  in the markdown format: of such a URL the listing shows the last 8 characters, after an
  ellipsis, and nothing else.
\<close>

theorem list_webhooks_hides_url_prefix:
  assumes "registries_same_but_hidden_urls r1 r2"
  shows "discord_list_webhooks fmt (w\<lparr>webhooks_file := Document r1\<rparr>)
         = discord_list_webhooks fmt (w\<lparr>webhooks_file := Document r2\<rparr>)"
proof -
  have "r1 = [] \<longleftrightarrow> r2 = []"
    using assms by (auto simp: registries_same_but_hidden_urls_def)
  then show ?thesis
    by (simp add: discord_list_webhooks_def load_webhooks_def sanitize_hidden [OF assms]
          markdown_lines_hidden [OF assms])
qed

lemma world_with_url_alt:
  "world_with_url u = empty_world\<lparr>webhooks_file := Document (registry_with_url u)\<rparr>"
  by (simp add: world_with_url_def empty_world_def)

lemma list_markdown_with_url:
  "discord_list_webhooks MARKDOWN (world_with_url u)
   = join NL [ascii ''# Configured Discord Webhooks'', [], ascii ''## releases'',
              ascii ''- **Description**: None'',
              ascii ''- **URL hint**: `'' @ (if length u > 8 then ascii ''...'' @ drop (length u - 8) u else u)
                @ ascii ''`'',
              ascii ''- **Added**: 2024-01-01T00:00:00'', []]"
  by (simp add: discord_list_webhooks_def world_with_url_def load_webhooks_def registry_with_url_def
        url_hint_def dict_get_default_def Let_def; simp add: ascii_def)

text \<open>
  The theorem for two different URLs of the webhook \<open>releases\<close> that end in \<open>01234567\<close>:
  both listings are the same, and the markdown one shows \<open>...01234567\<close>.
\<close>

theorem list_webhooks_hides_url_prefix_witness:
  "registry_with_url example_url \<noteq> registry_with_url other_url
   \<and> discord_list_webhooks MARKDOWN (world_with_url example_url)
     = discord_list_webhooks MARKDOWN (world_with_url other_url)
   \<and> discord_list_webhooks JSON (world_with_url example_url)
     = discord_list_webhooks JSON (world_with_url other_url)
   \<and> discord_list_webhooks MARKDOWN (world_with_url example_url)
     = join NL [ascii ''# Configured Discord Webhooks'', [], ascii ''## releases'',
                ascii ''- **Description**: None'',
                ascii ''- **URL hint**: `...01234567`'',
                ascii ''- **Added**: 2024-01-01T00:00:00'', []]"
proof -
  have l: "length example_url > 8" "length other_url > 8" "last8 example_url = last8 other_url"
    by (simp_all add: example_url_def other_url_def last8_def ascii_def)
  then have h: "registries_same_but_hidden_urls (registry_with_url example_url) (registry_with_url other_url)"
    by (simp add: registries_same_but_hidden_urls_def registry_with_url_def same_but_hidden_url_def
          ascii_def)
  have d: "registry_with_url example_url \<noteq> registry_with_url other_url"
    by (simp add: registry_with_url_def example_url_def other_url_def ascii_def)
  have m: "discord_list_webhooks MARKDOWN (world_with_url example_url)
     = join NL [ascii ''# Configured Discord Webhooks'', [], ascii ''## releases'',
                ascii ''- **Description**: None'',
                ascii ''- **URL hint**: `...01234567`'',
                ascii ''- **Added**: 2024-01-01T00:00:00'', []]"
    unfolding list_markdown_with_url by (simp add: example_url_def ascii_def)
  from list_webhooks_hides_url_prefix [OF h, of _ empty_world] d m
  show ?thesis by (simp add: world_with_url_alt)
qed

lemma list_json_ellipsis:
  "discord_list_webhooks JSON (world_with_url ellipsis_url)
   = dumps (JObj [(ascii ''releases'',
                   JObj [(ascii ''description'', JNull),
                         (ascii ''url_hint'', JStr (ascii ''...abcdefgh'')),
                         (ascii ''added_at'', JStr (ascii ''2024-01-01T00:00:00''))])])"
  by (simp add: discord_list_webhooks_def world_with_url_def load_webhooks_def registry_with_url_def
        url_hint_def dict_get_default_def ellipsis_url_def; simp add: ascii_def)

lemma encode_hint: "encode_string (ascii ''...abcdefgh'') = ascii [CHR 0x22] @ ascii ''...abcdefgh'' @ ascii [CHR 0x22]"
  by (simp add: encode_string_def escape_cp_def ascii_def)

lemma dumps_ellipsis_contains:
  "sublist (ascii ''...abcdefgh'')
     (dumps (JObj [(ascii ''releases'',
                   JObj [(ascii ''description'', JNull),
                         (ascii ''url_hint'', JStr (ascii ''...abcdefgh'')),
                         (ascii ''added_at'', JStr (ascii ''2024-01-01T00:00:00''))])]))"
proof -
  have "\<exists>ps ss. dumps (JObj [(ascii ''releases'',
                   JObj [(ascii ''description'', JNull),
                         (ascii ''url_hint'', JStr (ascii ''...abcdefgh'')),
                         (ascii ''added_at'', JStr (ascii ''2024-01-01T00:00:00''))])])
        = ps @ ascii ''...abcdefgh'' @ ss"
    unfolding dumps_def
    apply (simp add: encode_hint)
    apply (metis append.assoc)
    done
  then show ?thesis by (simp add: sublist_def)
qed

text \<open>
  Claim C9 as stated fails, in both of its forms. A URL of 51 characters that add-webhook
  accepts and that has three dots before its last 8 characters: both listings contain
  \<open>...abcdefgh\<close>, 11 consecutive characters of the URL. And a stored URL of exactly 8
  characters is listed in full, without ellipsis, so that it and a URL of 9 characters
  with the same last 8 characters give different listings.
\<close>

theorem list_webhooks_counterexample:
  "length ellipsis_url = 51
   \<and> length (ascii ''...abcdefgh'') = 11
   \<and> sublist (ascii ''...abcdefgh'') ellipsis_url
   \<and> sublist (ascii ''...abcdefgh'') (discord_list_webhooks MARKDOWN (world_with_url ellipsis_url))
   \<and> sublist (ascii ''...abcdefgh'') (discord_list_webhooks JSON (world_with_url ellipsis_url))
   \<and> last8 (ascii ''abcdefgh'') = last8 (ascii ''Xabcdefgh'')
   \<and> discord_list_webhooks MARKDOWN (world_with_url (ascii ''abcdefgh''))
     \<noteq> discord_list_webhooks MARKDOWN (world_with_url (ascii ''Xabcdefgh''))"
proof -
  have 1: "length ellipsis_url = 51" "length (ascii ''...abcdefgh'') = 11"
    by (simp_all add: ellipsis_url_def ascii_def)
  have 2: "sublist (ascii ''...abcdefgh'') ellipsis_url"
  proof -
    have "ellipsis_url = ascii ''https://discord.com/api/webhooks/123456/'' @ ascii ''...abcdefgh'' @ []"
      by (simp add: ellipsis_url_def ascii_def)
    then show ?thesis by (metis sublist_appendI)
  qed
  have 3: "sublist (ascii ''...abcdefgh'') (discord_list_webhooks MARKDOWN (world_with_url ellipsis_url))"
  proof -
    have "discord_list_webhooks MARKDOWN (world_with_url ellipsis_url)
          = (ascii ''# Configured Discord Webhooks'' @ NL @ NL @ ascii ''## releases'' @ NL
             @ ascii ''- **Description**: None'' @ NL @ ascii ''- **URL hint**: `'')
            @ ascii ''...abcdefgh''
            @ (ascii ''`'' @ NL @ ascii ''- **Added**: 2024-01-01T00:00:00'' @ NL)"
      unfolding list_markdown_with_url by (simp add: ellipsis_url_def ascii_def)
    then show ?thesis by (metis sublist_appendI)
  qed
  have 4: "sublist (ascii ''...abcdefgh'') (discord_list_webhooks JSON (world_with_url ellipsis_url))"
    unfolding list_json_ellipsis by (rule dumps_ellipsis_contains)
  have 5: "last8 (ascii ''abcdefgh'') = last8 (ascii ''Xabcdefgh'')"
    by (simp add: last8_def ascii_def)
  have 6: "discord_list_webhooks MARKDOWN (world_with_url (ascii ''abcdefgh''))
     \<noteq> discord_list_webhooks MARKDOWN (world_with_url (ascii ''Xabcdefgh''))"
    unfolding list_markdown_with_url by (simp add: ascii_def NL_def)
  from 1 2 3 4 5 6 show ?thesis by blast
qed

end
